theory Spec2Isabelle
  imports Complex_Main
begin

section \<open>JavaScript strings\<close>

text \<open>
  A string is a list of code units; \<^typ>\<open>char\<close> covers the code units below 256.
  \<open>split\<close> is \<^verbatim>\<open>String.prototype.split\<close> with a one-character separator: the empty
  string splits into one empty piece, never into none (so the \<open>[]\<close> branch of the
  \<^theory_text>\<open>case\<close> below is never taken, see \<open>split_not_Nil\<close>).
\<close>

fun split :: "char \<Rightarrow> string \<Rightarrow> string list" where
  "split c [] = [[]]"
| "split c (x # xs) =
     (if x = c then [] # split c xs
      else (case split c xs of p # ps \<Rightarrow> (x # p) # ps | [] \<Rightarrow> [[x]]))"

fun joinWith :: "string \<Rightarrow> string list \<Rightarrow> string" where
  "joinWith sep [] = []"
| "joinWith sep [p] = p"
| "joinWith sep (p # q # ps) = p @ sep @ joinWith sep (q # ps)"

definition isWhiteSpace :: "char \<Rightarrow> bool" where
  \<comment> \<open>the white space and line terminator code units below 256:
      TAB, LF, VT, FF, CR, SPACE, NBSP\<close>
  "isWhiteSpace c \<longleftrightarrow>
     c \<in> {CHR 0x09, CHR 0x0A, CHR 0x0B, CHR 0x0C, CHR 0x0D, CHR 0x20, CHR 0xA0}"

definition trim :: "string \<Rightarrow> string" where
  "trim s = rev (dropWhile isWhiteSpace (rev (dropWhile isWhiteSpace s)))"

definition startsWith :: "string \<Rightarrow> string \<Rightarrow> bool" where
  "startsWith s p \<longleftrightarrow> take (length p) s = p"

definition endsWith :: "string \<Rightarrow> string \<Rightarrow> bool" where
  "endsWith s p \<longleftrightarrow> take (length p) (rev s) = rev p"

fun showNat :: "nat \<Rightarrow> string" where
  "showNat n =
     (if n < 10 then [''0123456789'' ! n]
      else showNat (n div 10) @ [''0123456789'' ! (n mod 10)])"

declare showNat.simps [simp del]

section \<open>Identity codec (utils.ts)\<close>

definition stripDashes :: "string \<Rightarrow> string" where
  \<comment> \<open>\<^verbatim>\<open>dirName.replace(/^-+/, '').replace(/-+$/, '')\<close>\<close>
  "stripDashes dirName =
     rev (dropWhile (\<lambda>c. c = CHR ''-'') (rev (dropWhile (\<lambda>c. c = CHR ''-'') dirName)))"

definition orElse :: "string \<Rightarrow> string \<Rightarrow> string" where
  \<comment> \<open>\<^verbatim>\<open>a || b\<close> on strings: the empty string is falsy\<close>
  "orElse a b = (if a = [] then b else a)"

definition extractProjectName :: "string \<Rightarrow> string" where
  "extractProjectName dirName =
     (let cleaned = stripDashes dirName;
          parts = split CHR ''-'' cleaned
      in if length parts = 0 then dirName
         else if length parts = 6 then
           (if length (parts ! 2) = 1
            then joinWith ''-'' (drop (length parts - 2) parts)
            else joinWith ''-'' (drop 3 parts))
         else if length parts \<ge> 4 then joinWith ''-'' (drop (length parts - 2) parts)
         else if length parts \<ge> 2 then orElse (parts ! (length parts - 1)) dirName
         else orElse (parts ! 0) dirName)"

definition extractProjectPath :: "string \<Rightarrow> string" where
  \<comment> \<open>\<^verbatim>\<open>dirName.replace(/^-/, '').replace(/-/g, '/')\<close>\<close>
  "extractProjectPath dirName =
     map (\<lambda>c. if c = CHR ''-'' then CHR ''/'' else c)
       (case dirName of [] \<Rightarrow> [] | c # cs \<Rightarrow> if c = CHR ''-'' then cs else c # cs)"

section \<open>JavaScript values and exceptions\<close>

text \<open>
  A value produced by \<^verbatim>\<open>JSON.parse\<close>. Objects are association lists read with
  \<open>map_of\<close>. \<open>undefined\<close> is \<open>None\<close> of an optional value.
\<close>

datatype json =
    JNull
  | JBool bool
  | JNum rat
  | JStr string
  | JArr "json list"
  | JObj "(string \<times> json) list"

text \<open>A thrown value: the name and the message of an \<^verbatim>\<open>Error\<close> object.\<close>

datatype exn = Exn string string

definition Error :: "string \<Rightarrow> exn" where
  \<comment> \<open>\<^verbatim>\<open>new Error(message)\<close>\<close>
  "Error msg = Exn ''Error'' msg"

fun errToString :: "exn \<Rightarrow> string" where
  \<comment> \<open>\<^verbatim>\<open>`${error}`\<close>, that is \<^verbatim>\<open>Error.prototype.toString\<close>\<close>
  "errToString (Exn n m) = (if n = [] then m else if m = [] then n else n @ '': '' @ m)"

fun getProp :: "json \<Rightarrow> string \<Rightarrow> exn + json option" where
  \<comment> \<open>\<^verbatim>\<open>v.k\<close> for the keys the parser reads (none of them is a built-in property):
      reading a property of \<^verbatim>\<open>null\<close> throws, a primitive or an array has none of them\<close>
  "getProp JNull k =
     Inl (Exn ''TypeError'' (''Cannot read properties of null (reading '' @ [CHR 0x27] @ k @ [CHR 0x27] @ '')''))"
| "getProp (JObj kvs) k = Inr (map_of kvs k)"
| "getProp v k = Inr None"

fun optChain :: "json option \<Rightarrow> string \<Rightarrow> json option" where
  \<comment> \<open>\<^verbatim>\<open>v?.k\<close>: \<^verbatim>\<open>undefined\<close> when \<open>v\<close> is \<^verbatim>\<open>undefined\<close> or \<^verbatim>\<open>null\<close>\<close>
  "optChain None k = None"
| "optChain (Some JNull) k = None"
| "optChain (Some (JObj kvs)) k = map_of kvs k"
| "optChain (Some v) k = None"

fun truthy :: "json \<Rightarrow> bool" where
  "truthy JNull = False"
| "truthy (JBool b) = b"
| "truthy (JNum n) = (n \<noteq> 0)"
| "truthy (JStr s) = (s \<noteq> [])"
| "truthy (JArr xs) = True"
| "truthy (JObj kvs) = True"

fun orDefault :: "json option \<Rightarrow> json \<Rightarrow> json" where
  \<comment> \<open>\<^verbatim>\<open>a || b\<close>\<close>
  "orDefault None d = d"
| "orDefault (Some v) d = (if truthy v then v else d)"

fun filterE :: "('a \<Rightarrow> exn + bool) \<Rightarrow> 'a list \<Rightarrow> exn + 'a list" where
  \<comment> \<open>\<^verbatim>\<open>xs.filter(p)\<close> with a callback that may throw\<close>
  "filterE p [] = Inr []"
| "filterE p (x # xs) =
     (case p x of
        Inl e \<Rightarrow> Inl e
      | Inr b \<Rightarrow>
          (case filterE p xs of
             Inl e \<Rightarrow> Inl e
           | Inr ys \<Rightarrow> Inr (if b then x # ys else ys)))"

fun mapE :: "('a \<Rightarrow> exn + 'b) \<Rightarrow> 'a list \<Rightarrow> exn + 'b list" where
  \<comment> \<open>\<^verbatim>\<open>xs.map(f)\<close> with a callback that may throw\<close>
  "mapE f [] = Inr []"
| "mapE f (x # xs) =
     (case f x of
        Inl e \<Rightarrow> Inl e
      | Inr y \<Rightarrow>
          (case mapE f xs of
             Inl e \<Rightarrow> Inl e
           | Inr ys \<Rightarrow> Inr (y # ys)))"

section \<open>The environment: Node.js, JSON and date-fns\<close>

text \<open>
  A \<^verbatim>\<open>Date\<close> is its time value in milliseconds, or the invalid date.
\<close>

datatype jsdate = Date int | InvalidDate

record stats =
  isDirectory :: bool
  isFile :: bool

text \<open>
  What the program calls and does not define is a parameter: the file system (\<^verbatim>\<open>fs\<close>,
  \<^verbatim>\<open>path\<close>), \<^verbatim>\<open>JSON.parse\<close>, \<^verbatim>\<open>parseISO\<close> of date-fns (it may return the
  invalid date or throw), the start of the local calendar day of a time value (what
  \<^verbatim>\<open>startOfDay\<close> of date-fns computes in the machine's time zone), and the text of a date.
\<close>

record world =
  readFileSync :: "string \<Rightarrow> exn + string"
  readdirSync :: "string \<Rightarrow> exn + string list"
  statSync :: "string \<Rightarrow> exn + stats"
  pathJoin :: "string \<Rightarrow> string \<Rightarrow> string"
  pathBasename :: "string \<Rightarrow> string \<Rightarrow> string"
  jsonParse :: "string \<Rightarrow> exn + json"
  parseISO :: "json \<Rightarrow> exn + jsdate"
  startOfDay :: "int \<Rightarrow> int"
  dateToString :: "jsdate \<Rightarrow> string"

fun isValid :: "jsdate \<Rightarrow> bool" where
  "isValid (Date t) = True"
| "isValid InvalidDate = False"

fun isSameDay :: "world \<Rightarrow> jsdate \<Rightarrow> jsdate \<Rightarrow> bool" where
  \<comment> \<open>date-fns: \<^verbatim>\<open>+startOfDay(l) === +startOfDay(r)\<close>; the invalid date gives NaN,
      which equals nothing\<close>
  "isSameDay w (Date l) (Date r) = (startOfDay w l = startOfDay w r)"
| "isSameDay w l r = False"

definition differenceInMinutes :: "int \<Rightarrow> int \<Rightarrow> int" where
  \<comment> \<open>date-fns on two valid dates: \<^verbatim>\<open>Math.trunc((l - r) / 60000)\<close>\<close>
  "differenceInMinutes l r =
     (if l - r \<ge> 0 then (l - r) div 60000 else - ((r - l) div 60000))"

fun timeKey :: "jsdate \<Rightarrow> int" where
  \<comment> \<open>\<^verbatim>\<open>getTime()\<close> as a sort key; no invalid date reaches a sort, see \<open>mapE_entryDate_valid\<close>\<close>
  "timeKey (Date t) = t"
| "timeKey InvalidDate = 0"

section \<open>Utilities (utils.ts)\<close>

fun calculateDuration :: "world \<Rightarrow> jsdate \<Rightarrow> jsdate \<Rightarrow> exn + int" where
  \<comment> \<open>called with two \<^verbatim>\<open>Date\<close> objects\<close>
  "calculateDuration w (Date s) (Date e) = Inr (differenceInMinutes e s)"
| "calculateDuration w startTime endTime =
     Inl (Error (''Invalid dates: '' @ dateToString w startTime @ '' - '' @ dateToString w endTime))"

definition directoryExists :: "world \<Rightarrow> string \<Rightarrow> bool" where
  "directoryExists w dirPath =
     (case statSync w dirPath of Inl e \<Rightarrow> False | Inr st \<Rightarrow> isDirectory st)"

definition isValidDateString :: "world \<Rightarrow> string \<Rightarrow> exn + bool" where
  "isValidDateString w dateString =
     (case parseISO w (JStr dateString) of Inl e \<Rightarrow> Inl e | Inr d \<Rightarrow> Inr (isValid d))"

fun parseLines :: "world \<Rightarrow> string \<Rightarrow> nat \<Rightarrow> string list \<Rightarrow> exn + json list" where
  \<comment> \<open>\<^verbatim>\<open>lines.map((line, index) => ...)\<close> from the given index on: the first line that
      fails to parse throws out of the map\<close>
  "parseLines w filePath index [] = Inr []"
| "parseLines w filePath index (line # rest) =
     (case jsonParse w line of
        Inl error \<Rightarrow>
          Inl (Error (''Failed to parse line '' @ showNat (index + 1) @ '' in '' @ filePath
                 @ '': '' @ errToString error))
      | Inr v \<Rightarrow>
          (case parseLines w filePath (index + 1) rest of
             Inl e \<Rightarrow> Inl e
           | Inr vs \<Rightarrow> Inr (v # vs)))"

definition readJsonlFile :: "world \<Rightarrow> string \<Rightarrow> exn + json list" where
  "readJsonlFile w filePath =
     (case (case readFileSync w filePath of
              Inl e \<Rightarrow> Inl e
            | Inr content \<Rightarrow> parseLines w filePath 0 (split CHR 0x0A (trim content))) of
        Inl error \<Rightarrow>
          Inl (Error (''Failed to read JSONL file '' @ filePath @ '': '' @ errToString error))
      | Inr entries \<Rightarrow> Inr entries)"

section \<open>Data model (types.ts)\<close>

record SessionInfo =
  sessionId :: string
  projectPath :: string
  startTime :: jsdate
  endTime :: jsdate
  duration :: int
  messageCount :: nat
  userMessages :: "json list"

record ProjectInfo =
  name :: string
  path :: string
  sessions :: "SessionInfo list"
  totalDuration :: int
  totalMessages :: nat
  date :: string

record Summary =
  summaryTotalDuration :: int
  summaryTotalMessages :: nat
  projectCount :: nat
  sessionCount :: nat

record DailyReport =
  reportDate :: string
  projects :: "ProjectInfo list"
  summary :: Summary

record ParseError =
  "file" :: string
  line :: nat
  message :: string
  originalError :: exn

record ProcessResult =
  success :: bool
  data :: "DailyReport option"
  resultErrors :: "ParseError list"
  resultWarnings :: "string list"

text \<open>The fields of the class \<^verbatim>\<open>ClaudeHistoryParser\<close>.\<close>

record ClaudeHistoryParser =
  claudeProjectsPath :: string
  errors :: "ParseError list"
  warnings :: "string list"

section \<open>History parser (parser.ts)\<close>

subsection \<open>One session file\<close>

definition isTargetEntry :: "world \<Rightarrow> string \<Rightarrow> json \<Rightarrow> exn + bool" where
  \<comment> \<open>the callback of the first filter of \<^verbatim>\<open>parseSessionFile\<close>\<close>
  "isTargetEntry w targetDate entry =
     (case getProp entry ''timestamp'' of
        Inl e \<Rightarrow> Inl e
      | Inr None \<Rightarrow> Inr False
      | Inr (Some ts) \<Rightarrow>
          if \<not> truthy ts then Inr False
          else (case parseISO w ts of
                  Inl e \<Rightarrow> Inl e
                | Inr entryDate \<Rightarrow>
                    (case parseISO w (JStr targetDate) of
                       Inl e \<Rightarrow> Inl e
                     | Inr target \<Rightarrow> Inr (isSameDay w entryDate target))))"

definition isUserMessage :: "json \<Rightarrow> exn + bool" where
  \<comment> \<open>\<^verbatim>\<open>entry.type === 'user' && entry.message?.role === 'user'\<close>\<close>
  "isUserMessage entry =
     (case getProp entry ''type'' of
        Inl e \<Rightarrow> Inl e
      | Inr ty \<Rightarrow>
          if ty \<noteq> Some (JStr ''user'') then Inr False
          else (case getProp entry ''message'' of
                  Inl e \<Rightarrow> Inl e
                | Inr m \<Rightarrow> Inr (optChain m ''role'' = Some (JStr ''user''))))"

fun findText :: "json list \<Rightarrow> exn + json option" where
  \<comment> \<open>\<^verbatim>\<open>content.find(item => item.type === 'text')\<close>\<close>
  "findText [] = Inr None"
| "findText (item # items) =
     (case getProp item ''type'' of
        Inl e \<Rightarrow> Inl e
      | Inr ty \<Rightarrow> if ty = Some (JStr ''text'') then Inr (Some item) else findText items)"

definition extractContent :: "json \<Rightarrow> exn + json" where
  \<comment> \<open>the callback of the map that builds \<^verbatim>\<open>userMessages\<close>\<close>
  "extractContent entry =
     (case getProp entry ''message'' of
        Inl e \<Rightarrow> Inl e
      | Inr m \<Rightarrow>
          (case optChain m ''content'' of
             Some (JStr s) \<Rightarrow> Inr (JStr s)
           | Some (JArr content) \<Rightarrow>
               (case findText content of
                  Inl e \<Rightarrow> Inl e
                | Inr textContent \<Rightarrow>
                    Inr (orDefault (optChain textContent ''text'') (JStr ''[Tool use]'')))
           | _ \<Rightarrow> Inr (JStr ''[Unknown content]'')))"

definition hasTimestamp :: "json \<Rightarrow> exn + bool" where
  \<comment> \<open>\<^verbatim>\<open>entry => entry.timestamp\<close> as a filter callback\<close>
  "hasTimestamp entry =
     (case getProp entry ''timestamp'' of
        Inl e \<Rightarrow> Inl e
      | Inr None \<Rightarrow> Inr False
      | Inr (Some ts) \<Rightarrow> Inr (truthy ts))"

definition entryDate :: "world \<Rightarrow> json \<Rightarrow> exn + jsdate" where
  \<comment> \<open>\<^verbatim>\<open>entry => parseISO(entry.timestamp!)\<close>; the filter before it leaves no entry
      without a timestamp, so the \<open>None\<close> branch is never taken\<close>
  "entryDate w entry =
     (case getProp entry ''timestamp'' of
        Inl e \<Rightarrow> Inl e
      | Inr None \<Rightarrow> Inr InvalidDate
      | Inr (Some ts) \<Rightarrow> parseISO w ts)"

text \<open>
  \<^verbatim>\<open>Array.prototype.sort\<close> is stable (ECMAScript 2019; the package asks for Node 16 or
  later), so a sort with the comparator \<^verbatim>\<open>(a, b) => key(a) - key(b)\<close> is \<open>sort_key\<close>.
  Numbers are integers here: minute and message counts stay far below \<open>2^53\<close>. The test
  \<^verbatim>\<open>!startTime || !endTime\<close> of \<^verbatim>\<open>parseSessionFile\<close> is on two objects, which are
  never falsy, and has no branch in the model.
\<close>

definition parseSessionFile ::
  "world \<Rightarrow> string \<Rightarrow> string \<Rightarrow> string \<Rightarrow> exn + SessionInfo option" where
  "parseSessionFile w filePath targetDate projPath =
     (case readJsonlFile w filePath of
        Inl e \<Rightarrow> Inl e
      | Inr entries \<Rightarrow>
     (case filterE (isTargetEntry w targetDate) entries of
        Inl e \<Rightarrow> Inl e
      | Inr targetEntries \<Rightarrow>
     if length targetEntries = 0 then Inr None else
     (case filterE isUserMessage targetEntries of
        Inl e \<Rightarrow> Inl e
      | Inr users \<Rightarrow>
     (case mapE extractContent users of
        Inl e \<Rightarrow> Inl e
      | Inr msgs \<Rightarrow>
     if length msgs = 0 then Inr None else
     (case filterE hasTimestamp targetEntries of
        Inl e \<Rightarrow> Inl e
      | Inr stamped \<Rightarrow>
     (case mapE (entryDate w) stamped of
        Inl e \<Rightarrow> Inl e
      | Inr dates \<Rightarrow>
     (let timestamps = sort_key timeKey dates in
      if length timestamps = 0 then Inr None else
     (case calculateDuration w (timestamps ! 0) (timestamps ! (length timestamps - 1)) of
        Inl e \<Rightarrow> Inl e
      | Inr d \<Rightarrow>
          Inr (Some \<lparr> sessionId = pathBasename w filePath ''.jsonl'',
                      projectPath = projPath,
                      startTime = timestamps ! 0,
                      endTime = timestamps ! (length timestamps - 1),
                      duration = d,
                      messageCount = length msgs,
                      userMessages = msgs \<rparr>)))))))))"

subsection \<open>One project\<close>

definition getJsonlFiles :: "world \<Rightarrow> string \<Rightarrow> exn + string list" where
  "getJsonlFiles w projPath =
     (case readdirSync w projPath of
        Inl error \<Rightarrow> Inl (Error (''Failed to read project directory: '' @ errToString error))
      | Inr entries \<Rightarrow>
          Inr (map (pathJoin w projPath) (filter (\<lambda>entry. endsWith entry ''.jsonl'') entries)))"

definition sessionStep ::
  "world \<Rightarrow> string \<Rightarrow> string \<Rightarrow> SessionInfo list \<times> ClaudeHistoryParser \<Rightarrow> string
     \<Rightarrow> SessionInfo list \<times> ClaudeHistoryParser" where
  \<comment> \<open>the body of the loop over the session files of a project\<close>
  "sessionStep w targetDate actualPath st jsonlFile =
     (case parseSessionFile w jsonlFile targetDate actualPath of
        Inl error \<Rightarrow>
          (fst st,
           (snd st)\<lparr> errors := errors (snd st) @
             [\<lparr> file = jsonlFile, line = 0,
                message = ''Failed to parse session file: '' @ errToString error,
                originalError = error \<rparr>] \<rparr>)
      | Inr None \<Rightarrow> st
      | Inr (Some sessionInfo) \<Rightarrow> (fst st @ [sessionInfo], snd st))"

definition parseProjectForDate ::
  "world \<Rightarrow> ClaudeHistoryParser \<Rightarrow> string \<Rightarrow> string
     \<Rightarrow> ClaudeHistoryParser \<times> (exn + ProjectInfo option)" where
  "parseProjectForDate w this projectDir targetDate =
     (let projPath = pathJoin w (claudeProjectsPath this) projectDir;
          projectName = extractProjectName projectDir;
          actualPath = extractProjectPath projectDir
      in case getJsonlFiles w projPath of
           Inl e \<Rightarrow> (this, Inl e)
         | Inr jsonlFiles \<Rightarrow>
             if length jsonlFiles = 0
             then (this\<lparr> warnings := warnings this @
                          [''No JSONL files found in project: '' @ projectName] \<rparr>, Inr None)
             else
               (let st = foldl (sessionStep w targetDate actualPath) ([], this) jsonlFiles;
                    sessionList = fst st
                in if length sessionList = 0 then (snd st, Inr None)
                   else (snd st,
                         Inr (Some \<lparr> name = projectName,
                                     path = actualPath,
                                     sessions = sort_key (\<lambda>s. timeKey (startTime s)) sessionList,
                                     totalDuration = foldl (\<lambda>sum session. sum + duration session) 0 sessionList,
                                     totalMessages = foldl (\<lambda>sum session. sum + messageCount session) 0 sessionList,
                                     date = targetDate \<rparr>))))"

subsection \<open>All projects\<close>

definition getProjectDirectories :: "world \<Rightarrow> ClaudeHistoryParser \<Rightarrow> exn + string list" where
  "getProjectDirectories w this =
     (case readdirSync w (claudeProjectsPath this) of
        Inl error \<Rightarrow> Inl (Error (''Failed to read projects directory: '' @ errToString error))
      | Inr entries \<Rightarrow>
          Inr (filter (\<lambda>entry. directoryExists w (pathJoin w (claudeProjectsPath this) entry)
                              \<and> startsWith entry ''-'') entries))"

definition calculateSummary :: "ProjectInfo list \<Rightarrow> Summary" where
  "calculateSummary projs =
     \<lparr> summaryTotalDuration = foldl (\<lambda>sum project. sum + totalDuration project) 0 projs,
       summaryTotalMessages = foldl (\<lambda>sum project. sum + totalMessages project) 0 projs,
       projectCount = length projs,
       sessionCount = foldl (\<lambda>sum project. sum + length (sessions project)) 0 projs \<rparr>"

definition projectStep ::
  "world \<Rightarrow> string \<Rightarrow> ProjectInfo list \<times> ClaudeHistoryParser \<Rightarrow> string
     \<Rightarrow> ProjectInfo list \<times> ClaudeHistoryParser" where
  \<comment> \<open>the body of the loop over the project directories\<close>
  "projectStep w targetDate st projectDir =
     (case parseProjectForDate w (snd st) projectDir targetDate of
        (this, Inl error) \<Rightarrow>
          (fst st,
           this\<lparr> errors := errors this @
             [\<lparr> file = projectDir, line = 0,
                message = ''Failed to parse project: '' @ errToString error,
                originalError = error \<rparr>] \<rparr>)
      | (this, Inr None) \<Rightarrow> (fst st, this)
      | (this, Inr (Some projectInfo)) \<Rightarrow>
          if length (sessions projectInfo) > 0 then (fst st @ [projectInfo], this)
          else (fst st, this))"

definition failed :: "ClaudeHistoryParser \<Rightarrow> exn \<Rightarrow> ProcessResult" where
  \<comment> \<open>the \<^verbatim>\<open>catch\<close> block shared by \<^verbatim>\<open>parseForDate\<close> and \<^verbatim>\<open>parseProjectOnly\<close>\<close>
  "failed this error =
     \<lparr> success = False, data = None,
       resultErrors = errors this @
         [\<lparr> file = ''parser'', line = 0,
            message = ''Parse failed: '' @ errToString error,
            originalError = error \<rparr>],
       resultWarnings = warnings this \<rparr>"

definition parseForDateTry ::
  "world \<Rightarrow> ClaudeHistoryParser \<Rightarrow> string \<Rightarrow> ClaudeHistoryParser \<times> (exn + ProcessResult)" where
  \<comment> \<open>the \<^verbatim>\<open>try\<close> block of \<^verbatim>\<open>parseForDate\<close>: the parser as the block leaves it, and
      the value returned or the exception thrown\<close>
  "parseForDateTry w this targetDate =
     (case isValidDateString w targetDate of
        Inl e \<Rightarrow> (this, Inl e)
      | Inr valid \<Rightarrow>
     if \<not> valid then (this, Inl (Error (''Invalid date format: '' @ targetDate)))
     else if \<not> directoryExists w (claudeProjectsPath this)
     then (this, Inl (Error (''Claude projects directory not found: '' @ claudeProjectsPath this)))
     else
     (case getProjectDirectories w this of
        Inl e \<Rightarrow> (this, Inl e)
      | Inr projectDirs \<Rightarrow>
          if length projectDirs = 0
          then (let this1 = this\<lparr> warnings := warnings this @ [''No Claude projects found''] \<rparr>
                in (this1,
                    Inr \<lparr> success = True,
                          data = Some \<lparr> reportDate = targetDate, projects = [],
                                        summary = \<lparr> summaryTotalDuration = 0, summaryTotalMessages = 0,
                                                    projectCount = 0, sessionCount = 0 \<rparr> \<rparr>,
                          resultErrors = errors this1, resultWarnings = warnings this1 \<rparr>))
          else
            (let st = foldl (projectStep w targetDate) ([], this) projectDirs;
                 projs = fst st;
                 this1 = snd st;
                 summ = calculateSummary projs
             in (this1,
                 Inr \<lparr> success = True,
                       data = Some \<lparr> reportDate = targetDate,
                                     projects = sort_key (\<lambda>p. - totalDuration p) projs,
                                     summary = summ \<rparr>,
                       resultErrors = errors this1, resultWarnings = warnings this1 \<rparr>))))"

definition parseForDate :: "world \<Rightarrow> ClaudeHistoryParser \<Rightarrow> string \<Rightarrow> ProcessResult" where
  "parseForDate w this targetDate =
     (case parseForDateTry w (this\<lparr> errors := [], warnings := [] \<rparr>) targetDate of
        (this1, Inr result) \<Rightarrow> result
      | (this1, Inl error) \<Rightarrow> failed this1 error)"

definition parseProjectOnlyTry ::
  "world \<Rightarrow> ClaudeHistoryParser \<Rightarrow> string \<Rightarrow> string
     \<Rightarrow> ClaudeHistoryParser \<times> (exn + ProcessResult)" where
  \<comment> \<open>the \<^verbatim>\<open>try\<close> block of \<^verbatim>\<open>parseProjectOnly\<close>\<close>
  "parseProjectOnlyTry w this projectName targetDate =
     (case getProjectDirectories w this of
        Inl e \<Rightarrow> (this, Inl e)
      | Inr projectDirs \<Rightarrow>
          (case find (\<lambda>dir. extractProjectName dir = projectName) projectDirs of
             None \<Rightarrow> (this, Inl (Error (''Project not found: '' @ projectName)))
           | Some matchingDir \<Rightarrow>
               if matchingDir = [] then (this, Inl (Error (''Project not found: '' @ projectName)))
               else
               (case parseProjectForDate w this matchingDir targetDate of
                  (this1, Inl e) \<Rightarrow> (this1, Inl e)
                | (this1, Inr projectInfo) \<Rightarrow>
                    (let projs = (case projectInfo of Some p \<Rightarrow> [p] | None \<Rightarrow> []);
                         summ = calculateSummary projs
                     in (this1,
                         Inr \<lparr> success = True,
                               data = Some \<lparr> reportDate = targetDate, projects = projs,
                                             summary = summ \<rparr>,
                               resultErrors = errors this1, resultWarnings = warnings this1 \<rparr>)))))"

definition parseProjectOnly ::
  "world \<Rightarrow> ClaudeHistoryParser \<Rightarrow> string \<Rightarrow> string \<Rightarrow> ProcessResult" where
  "parseProjectOnly w this projectName targetDate =
     (case parseProjectOnlyTry w (this\<lparr> errors := [], warnings := [] \<rparr>) projectName targetDate of
        (this1, Inr result) \<Rightarrow> result
      | (this1, Inl error) \<Rightarrow> failed this1 error)"

section \<open>Vocabulary of the properties\<close>

text \<open>
  An entry qualifies as a user instruction when its type and the role of its message are both
  \<open>user\<close>; \<open>contentOf\<close> is the content of its message and \<open>isTextPart\<close> holds for
  a part of type \<open>text\<close>. \<open>timeOf\<close> is the time value of the timestamp of an entry, and
  \<open>sessionOf\<close> the session bounded by the least and the greatest time value of the entries
  of the target date. \<open>lineFailure\<close> is the exception for a file whose \<open>n\<close>-th line does not
  parse, \<open>fileFailure\<close> the error recorded for a file, \<open>parserFailure\<close> the result of a
  failed run. \<open>scannedSessions\<close>, \<open>projectOf\<close> and \<open>scannedProjects\<close> name what the two
  loops collect, in the order of the scan, before any sorting.
\<close>

definition qualifies :: "json \<Rightarrow> bool" where
  "qualifies entry \<longleftrightarrow>
     getProp entry ''type'' = Inr (Some (JStr ''user''))
     \<and> (case getProp entry ''message'' of
          Inl e \<Rightarrow> False
        | Inr m \<Rightarrow> optChain m ''role'' = Some (JStr ''user''))"

definition contentOf :: "json \<Rightarrow> json option" where
  \<comment> \<open>\<^verbatim>\<open>entry.message?.content\<close> of an entry that is not \<^verbatim>\<open>null\<close>\<close>
  "contentOf entry =
     (case getProp entry ''message'' of Inl e \<Rightarrow> None | Inr m \<Rightarrow> optChain m ''content'')"

definition isTextPart :: "json \<Rightarrow> bool" where
  \<comment> \<open>\<^verbatim>\<open>item.type === 'text'\<close> for an item that is not \<^verbatim>\<open>null\<close>\<close>
  "isTextPart item \<longleftrightarrow> getProp item ''type'' = Inr (Some (JStr ''text''))"

definition timeOf :: "world \<Rightarrow> json \<Rightarrow> int" where
  "timeOf w entry = (case entryDate w entry of Inr (Date t) \<Rightarrow> t | _ \<Rightarrow> 0)"

definition sessionOf :: "world \<Rightarrow> string \<Rightarrow> string \<Rightarrow> json list \<Rightarrow> json list \<Rightarrow> SessionInfo" where
  "sessionOf w filePath projPath targetEntries msgs =
     \<lparr> sessionId = pathBasename w filePath ''.jsonl'',
       projectPath = projPath,
       startTime = Date (Min (timeOf w ` set targetEntries)),
       endTime = Date (Max (timeOf w ` set targetEntries)),
       duration = differenceInMinutes (Max (timeOf w ` set targetEntries)) (Min (timeOf w ` set targetEntries)),
       messageCount = length msgs,
       userMessages = msgs \<rparr>"

definition lineFailure :: "string \<Rightarrow> nat \<Rightarrow> exn \<Rightarrow> exn" where
  \<comment> \<open>what \<open>readJsonlFile\<close> throws when \<^verbatim>\<open>JSON.parse\<close> throws \<open>e\<close> on line \<open>n\<close>\<close>
  "lineFailure filePath n e =
     Error (''Failed to read JSONL file '' @ filePath @ '': Error: Failed to parse line ''
            @ showNat n @ '' in '' @ filePath @ '': '' @ errToString e)"

definition fileFailure :: "string \<Rightarrow> exn \<Rightarrow> ParseError" where
  \<comment> \<open>the error pushed for a session file whose parsing threw\<close>
  "fileFailure filePath error =
     \<lparr> file = filePath, line = 0,
       message = ''Failed to parse session file: '' @ errToString error,
       originalError = error \<rparr>"

definition parserFailure :: "string \<Rightarrow> ProcessResult" where
  \<comment> \<open>the failed result whose single error carries the given message of an \<^verbatim>\<open>Error\<close>\<close>
  "parserFailure msg =
     \<lparr> success = False, data = None,
       resultErrors = [\<lparr> file = ''parser'', line = 0,
                         message = ''Parse failed: Error: '' @ msg,
                         originalError = Error msg \<rparr>],
       resultWarnings = [] \<rparr>"

definition scannedSessions :: "world \<Rightarrow> string \<Rightarrow> string \<Rightarrow> string list \<Rightarrow> SessionInfo list" where
  \<comment> \<open>the sessions of the given files, in the order of the files\<close>
  "scannedSessions w targetDate actualPath files =
     List.map_filter
       (\<lambda>jsonlFile. case parseSessionFile w jsonlFile targetDate actualPath of
                      Inr (Some s) \<Rightarrow> Some s
                    | _ \<Rightarrow> None) files"

definition projectOf :: "world \<Rightarrow> string \<Rightarrow> string \<Rightarrow> string \<Rightarrow> ProjectInfo option" where
  \<comment> \<open>the project record that a project directory contributes, if any\<close>
  "projectOf w rootDir targetDate projectDir =
     (case snd (parseProjectForDate w \<lparr> claudeProjectsPath = rootDir, errors = [], warnings = [] \<rparr>
                  projectDir targetDate) of
        Inr (Some p) \<Rightarrow> if length (sessions p) > 0 then Some p else None
      | _ \<Rightarrow> None)"

definition scannedProjects :: "world \<Rightarrow> string \<Rightarrow> string \<Rightarrow> string list \<Rightarrow> ProjectInfo list" where
  \<comment> \<open>the project records of the given directories, in the order of the directories\<close>
  "scannedProjects w rootDir targetDate projectDirs =
     List.map_filter (projectOf w rootDir targetDate) projectDirs"

definition projectRecord :: "string \<Rightarrow> string \<Rightarrow> SessionInfo list \<Rightarrow> ProjectInfo" where
  \<comment> \<open>the record built from the sessions of a project directory in scan order\<close>
  "projectRecord projectDir targetDate scanned =
     \<lparr> name = extractProjectName projectDir,
       path = extractProjectPath projectDir,
       sessions = sort_key (\<lambda>s. timeKey (startTime s)) scanned,
       totalDuration = sum_list (map duration scanned),
       totalMessages = sum_list (map messageCount scanned),
       date = targetDate \<rparr>"

section \<open>A sample history\<close>

text \<open>
  A small environment on which the definitions are evaluated: a projects directory with two
  project directories and a plain file, session files made of six sample lines, and a machine
  in the UTC time zone. \<open>demoParse\<close> and \<open>demoParseISO\<close> give the values of
  \<^verbatim>\<open>JSON.parse\<close> and \<^verbatim>\<open>parseISO\<close> on the texts that occur in it.
\<close>

definition lineUser :: string where
  \<open>lineUser = ''{"type":"user","timestamp":"2025-07-03T09:00:00.000Z","message":{"role":"user","content":"fix bug"}}''\<close>

definition lineAssistant :: string where
  \<open>lineAssistant = ''{"type":"assistant","timestamp":"2025-07-03T09:15:00.000Z","message":{"role":"assistant","content":[{"type":"text","text":"done"}]}}''\<close>

definition lineNextDay :: string where
  \<open>lineNextDay = ''{"type":"user","timestamp":"2025-07-04T09:20:00.000Z","message":{"role":"user","content":"next"}}''\<close>

definition lineTool :: string where
  \<open>lineTool = ''{"type":"user","timestamp":"2025-07-03T10:00:00.000Z","message":{"role":"user","content":[{"type":"tool_result"},{"type":"text","text":"add tests"}]}}''\<close>

definition lineLate :: string where
  \<open>lineLate = ''{"type":"assistant","timestamp":"2025-07-03T10:45:00.000Z","message":{"role":"assistant","content":"ok"}}''\<close>

definition lineBad :: string where
  \<open>lineBad = ''{"type":"user",''\<close>

definition entryUser :: json where
  "entryUser =
     JObj [(''type'', JStr ''user''), (''timestamp'', JStr ''2025-07-03T09:00:00.000Z''),
           (''message'', JObj [(''role'', JStr ''user''), (''content'', JStr ''fix bug'')])]"

definition entryAssistant :: json where
  "entryAssistant =
     JObj [(''type'', JStr ''assistant''), (''timestamp'', JStr ''2025-07-03T09:15:00.000Z''),
           (''message'', JObj [(''role'', JStr ''assistant''),
              (''content'', JArr [JObj [(''type'', JStr ''text''), (''text'', JStr ''done'')]])])]"

definition entryNextDay :: json where
  "entryNextDay =
     JObj [(''type'', JStr ''user''), (''timestamp'', JStr ''2025-07-04T09:20:00.000Z''),
           (''message'', JObj [(''role'', JStr ''user''), (''content'', JStr ''next'')])]"

definition entryTool :: json where
  "entryTool =
     JObj [(''type'', JStr ''user''), (''timestamp'', JStr ''2025-07-03T10:00:00.000Z''),
           (''message'', JObj [(''role'', JStr ''user''),
              (''content'', JArr [JObj [(''type'', JStr ''tool_result'')],
                                  JObj [(''type'', JStr ''text''), (''text'', JStr ''add tests'')]])])]"

definition entryLate :: json where
  "entryLate =
     JObj [(''type'', JStr ''assistant''), (''timestamp'', JStr ''2025-07-03T10:45:00.000Z''),
           (''message'', JObj [(''role'', JStr ''assistant''), (''content'', JStr ''ok'')])]"

definition entryEmptyText :: json where
  "entryEmptyText =
     JObj [(''type'', JStr ''user''), (''timestamp'', JStr ''2025-07-03T09:00:00.000Z''),
           (''message'', JObj [(''role'', JStr ''user''),
              (''content'', JArr [JObj [(''type'', JStr ''text''), (''text'', JStr '''')]])])]"

definition entryImage :: json where
  "entryImage =
     JObj [(''type'', JStr ''user''), (''timestamp'', JStr ''2025-07-03T09:00:00.000Z''),
           (''message'', JObj [(''role'', JStr ''user''),
              (''content'', JObj [(''type'', JStr ''image'')])])]"

definition demoParse :: "string \<Rightarrow> exn + json" where
  "demoParse s =
     (if s = lineUser then Inr entryUser
      else if s = lineAssistant then Inr entryAssistant
      else if s = lineNextDay then Inr entryNextDay
      else if s = lineTool then Inr entryTool
      else if s = lineLate then Inr entryLate
      else Inl (Exn ''SyntaxError'' ''Unexpected end of JSON input''))"

definition demoParseISO :: "json \<Rightarrow> exn + jsdate" where
  "demoParseISO v =
     (if v = JStr ''2025-07-03'' then Inr (Date 1751500800000)
      else if v = JStr ''2025-07-03T09:00:00.000Z'' then Inr (Date 1751533200000)
      else if v = JStr ''2025-07-03T09:15:00.000Z'' then Inr (Date 1751534100000)
      else if v = JStr ''2025-07-04T09:20:00.000Z'' then Inr (Date 1751620800000)
      else if v = JStr ''2025-07-03T10:00:00.000Z'' then Inr (Date 1751536800000)
      else if v = JStr ''2025-07-03T10:45:00.000Z'' then Inr (Date 1751539500000)
      else Inr InvalidDate)"

definition fileS1 :: string where
  "fileS1 = joinWith [CHR 0x0A] [lineUser, lineAssistant, lineNextDay] @ [CHR 0x0A]"

definition fileS2 :: string where
  "fileS2 =
     joinWith [CHR 0x0A]
       [lineUser, lineAssistant, lineUser, lineBad, lineAssistant,
        lineUser, lineAssistant, lineUser, lineAssistant, lineUser] @ [CHR 0x0A]"

definition fileS3 :: string where
  "fileS3 = [CHR 0x20, CHR 0x0A]"

definition fileS4 :: string where
  "fileS4 = joinWith [CHR 0x0A] [lineAssistant, lineLate]"

definition fileT1 :: string where
  "fileT1 = joinWith [CHR 0x0A] [lineTool, lineLate] @ [CHR 0x0A]"

definition demoFiles :: "string \<Rightarrow> exn + string" where
  "demoFiles p =
     (if p = ''/projects/-Users-dev-app/s1.jsonl'' then Inr fileS1
      else if p = ''/projects/-Users-dev-app/s2.jsonl'' then Inr fileS2
      else if p = ''/projects/-Users-dev-app/s3.jsonl'' then Inr fileS3
      else if p = ''/projects/-Users-dev-app/s4.jsonl'' then Inr fileS4
      else if p = ''/projects/-Users-dev-web/t1.jsonl'' then Inr fileT1
      else Inl (Exn ''Error'' (''ENOENT: no such file or directory, open '' @ [CHR 0x27] @ p @ [CHR 0x27])))"

definition demoDirs :: "string \<Rightarrow> exn + string list" where
  "demoDirs p =
     (if p = ''/projects'' then Inr [''-Users-dev-app'', ''notes.txt'', ''-Users-dev-web'']
      else if p = ''/projects/-Users-dev-app'' then Inr [''s1.jsonl'', ''s2.jsonl'', ''s3.jsonl'', ''s4.jsonl'', ''memo.md'']
      else if p = ''/projects/-Users-dev-web'' then Inr [''t1.jsonl'']
      else Inl (Exn ''Error'' (''ENOENT: no such file or directory, scandir '' @ [CHR 0x27] @ p @ [CHR 0x27])))"

definition demoStat :: "string \<Rightarrow> exn + stats" where
  "demoStat p =
     (if p = ''/projects'' \<or> p = ''/projects/-Users-dev-app'' \<or> p = ''/projects/-Users-dev-web''
      then Inr \<lparr> isDirectory = True, isFile = False \<rparr>
      else if p = ''/projects/notes.txt'' then Inr \<lparr> isDirectory = False, isFile = True \<rparr>
      else Inl (Exn ''Error'' (''ENOENT: no such file or directory, stat '' @ [CHR 0x27] @ p @ [CHR 0x27])))"

definition demoBasename :: "string \<Rightarrow> string \<Rightarrow> string" where
  "demoBasename p ext =
     (let b = last (split CHR ''/'' p)
      in if endsWith b ext \<and> b \<noteq> ext then take (length b - length ext) b else b)"

definition demoWorld :: world where
  "demoWorld =
     \<lparr> readFileSync = demoFiles, readdirSync = demoDirs, statSync = demoStat,
       pathJoin = (\<lambda>a b. a @ ''/'' @ b), pathBasename = demoBasename,
       jsonParse = demoParse, parseISO = demoParseISO,
       startOfDay = (\<lambda>t. t - t mod 86400000),
       dateToString = (\<lambda>d. ''Invalid Date'') \<rparr>"

definition demoParser :: ClaudeHistoryParser where
  "demoParser = \<lparr> claudeProjectsPath = ''/projects'', errors = [], warnings = [] \<rparr>"


definition demoSessionS1 :: SessionInfo where
  "demoSessionS1 =
     \<lparr> sessionId = ''s1'', projectPath = ''Users/dev/app'',
       startTime = Date 1751533200000, endTime = Date 1751534100000,
       duration = 15, messageCount = 1, userMessages = [JStr ''fix bug''] \<rparr>"

definition demoSessionT1 :: SessionInfo where
  "demoSessionT1 =
     \<lparr> sessionId = ''t1'', projectPath = ''Users/dev/web'',
       startTime = Date 1751536800000, endTime = Date 1751539500000,
       duration = 45, messageCount = 1, userMessages = [JStr ''add tests''] \<rparr>"

definition demoApp :: ProjectInfo where
  "demoApp =
     \<lparr> name = ''app'', path = ''Users/dev/app'', sessions = [demoSessionS1],
       totalDuration = 15, totalMessages = 1, date = ''2025-07-03'' \<rparr>"

definition demoWeb :: ProjectInfo where
  "demoWeb =
     \<lparr> name = ''web'', path = ''Users/dev/web'', sessions = [demoSessionT1],
       totalDuration = 45, totalMessages = 1, date = ''2025-07-03'' \<rparr>"

definition demoReport :: DailyReport where
  "demoReport =
     \<lparr> reportDate = ''2025-07-03'', projects = [demoWeb, demoApp],
       summary = \<lparr> summaryTotalDuration = 60, summaryTotalMessages = 2,
                   projectCount = 2, sessionCount = 2 \<rparr> \<rparr>"

section \<open>Facts about splitting\<close>

lemma split_not_Nil: "split c s \<noteq> []"
  by (induction s) (auto split: list.splits)

lemma last_split_nonempty:
  "s \<noteq> [] \<Longrightarrow> last s \<noteq> c \<Longrightarrow> last (split c s) \<noteq> []"
proof (induction s)
  case Nil
  then show ?case by simp
next
  case (Cons x xs)
  show ?case
  proof (cases "xs = []")
    case True
    with Cons.prems show ?thesis by simp
  next
    case False
    with Cons.prems have ih: "last (split c xs) \<noteq> []"
      using Cons.IH by simp
    obtain p ps where sp: "split c xs = p # ps"
      using split_not_Nil [of c xs] by (cases "split c xs") auto
    show ?thesis
      using ih sp by (cases ps) auto
  qed
qed

lemma stripDashes_last:
  "stripDashes d \<noteq> [] \<Longrightarrow> last (stripDashes d) \<noteq> CHR ''-''"
proof -
  assume ne: "stripDashes d \<noteq> []"
  let ?r = "dropWhile (\<lambda>c. c = CHR ''-'') (rev (dropWhile (\<lambda>c. c = CHR ''-'') d))"
  from ne have r: "?r \<noteq> []" by (simp add: stripDashes_def)
  then have "hd ?r \<noteq> CHR ''-''" using hd_dropWhile by blast
  moreover have "last (stripDashes d) = hd ?r"
    using r by (simp add: stripDashes_def last_rev)
  ultimately show ?thesis by simp
qed

section \<open>Name decoding\<close>

text \<open>
  C3 (as amended). \<open>extractProjectName\<close> strips the leading and trailing runs of dashes,
  splits the rest on the dash and chooses by the number of segments: with exactly 6 segments
  the last 2 when the third segment has length 1, otherwise the segments from index 3 onward;
  with 4, 5 or more than 6 segments the last 2; with 2 or 3 the last one; with 1 the single
  segment, except that a name made of dashes only (its single segment is empty) is returned
  unchanged. The two names of the specification decode to \<open>expense-checker\<close> and
  \<open>claude-daily-reports\<close>.
\<close>

theorem extractProjectName_by_segment_count:
  "extractProjectName dirName =
     (let parts = split CHR ''-'' (stripDashes dirName); n = length parts
      in if n = 6 then
           (if length (parts ! 2) = 1 then joinWith ''-'' [parts ! 4, parts ! 5]
            else joinWith ''-'' [parts ! 3, parts ! 4, parts ! 5])
         else if n \<ge> 4 then joinWith ''-'' [parts ! (n - 2), parts ! (n - 1)]
         else if n = 2 \<or> n = 3 then last parts
         else if stripDashes dirName = [] then dirName
         else hd parts)
   \<and> extractProjectName ''-Users-x-table-expense-checker'' = ''expense-checker''
   \<and> extractProjectName ''-Users-me-personal-claude-daily-reports'' = ''claude-daily-reports''"
proof (intro conjI)
  let ?parts = "split CHR ''-'' (stripDashes dirName)"
  let ?n = "length ?parts"
  have ne: "?parts \<noteq> []" by (rule split_not_Nil)
  have drop2: "4 \<le> ?n \<Longrightarrow> drop (?n - 2) ?parts = [?parts ! (?n - 2), ?parts ! (?n - 1)]"
  proof -
    assume h: "4 \<le> ?n"
    have "drop (?n - 2) ?parts = ?parts ! (?n - 2) # drop (Suc (?n - 2)) ?parts"
      using h by (intro Cons_nth_drop_Suc [symmetric]) simp
    moreover have "Suc (?n - 2) = ?n - 1" using h by simp
    moreover have "drop (?n - 1) ?parts = ?parts ! (?n - 1) # drop (Suc (?n - 1)) ?parts"
      using h by (intro Cons_nth_drop_Suc [symmetric]) simp
    ultimately show ?thesis using h by simp
  qed
  have drop3: "?n = 6 \<Longrightarrow> drop 3 ?parts = [?parts ! 3, ?parts ! 4, ?parts ! 5]"
  proof -
    assume h: "?n = 6"
    then obtain a b c d e f where "?parts = [a, b, c, d, e, f]"
      by (auto simp: length_Suc_conv eval_nat_numeral)
    then show ?thesis by simp
  qed
  have lastp: "?parts ! (?n - 1) = last ?parts"
    using ne by (simp add: last_conv_nth)
  have one: "?n < 2 \<Longrightarrow> ?parts ! 0 = hd ?parts"
    using ne by (simp add: hd_conv_nth)
  have last_ne: "stripDashes dirName \<noteq> [] \<Longrightarrow> last ?parts \<noteq> []"
    using last_split_nonempty stripDashes_last by blast
  have single: "?n < 2 \<Longrightarrow> last ?parts = hd ?parts"
    using ne by (cases ?parts) auto
  have empty: "stripDashes dirName = [] \<Longrightarrow> ?parts = [[]]" by simp
  show "extractProjectName dirName =
     (let parts = split CHR ''-'' (stripDashes dirName); n = length parts
      in if n = 6 then
           (if length (parts ! 2) = 1 then joinWith ''-'' [parts ! 4, parts ! 5]
            else joinWith ''-'' [parts ! 3, parts ! 4, parts ! 5])
         else if n \<ge> 4 then joinWith ''-'' [parts ! (n - 2), parts ! (n - 1)]
         else if n = 2 \<or> n = 3 then last parts
         else if stripDashes dirName = [] then dirName
         else hd parts)"
  proof (cases "stripDashes dirName = []")
    case True
    then show ?thesis
      by (simp add: extractProjectName_def Let_def orElse_def)
  next
    case False
    consider "?n = 6" | "?n \<noteq> 6" "4 \<le> ?n" | "?n = 2 \<or> ?n = 3" | "?n < 2"
      by linarith
    then show ?thesis
    proof cases
      case 1
      then show ?thesis
        using drop2 drop3 ne by (simp add: extractProjectName_def Let_def)
    next
      case 2
      then show ?thesis
        using drop2 ne by (simp add: extractProjectName_def Let_def)
    next
      case 3
      then show ?thesis
        using last_ne [OF False] lastp ne
        by (auto simp: extractProjectName_def Let_def orElse_def)
    next
      case 4
      then show ?thesis
        using last_ne [OF False] one single ne False
        by (auto simp: extractProjectName_def Let_def orElse_def)
    qed
  qed
next
  show "extractProjectName ''-Users-x-table-expense-checker'' = ''expense-checker''"
    by (simp add: extractProjectName_def stripDashes_def Let_def)
next
  show "extractProjectName ''-Users-me-personal-claude-daily-reports'' = ''claude-daily-reports''"
    by (simp add: extractProjectName_def stripDashes_def Let_def)
qed

text \<open>
  C3 as stated fails on a name of dashes only: stripping leaves the empty string, which
  splits into the single segment \<open>''''\<close>, and the name itself is returned instead.
\<close>

theorem extractProjectName_single_segment_counterexample:
  "length (split CHR ''-'' (stripDashes ''-'')) = 1
   \<and> extractProjectName ''-'' \<noteq> hd (split CHR ''-'' (stripDashes ''-''))"
  by (simp add: extractProjectName_def stripDashes_def Let_def orElse_def)

section \<open>Facts about one session file\<close>

lemma filterE_Inr:
  "filterE p xs = Inr ys \<Longrightarrow> ys = filter (\<lambda>x. p x = Inr True) xs"
  by (induction xs arbitrary: ys) (auto split: sum.splits if_splits)

lemma filterE_pure:
  "\<forall>x\<in>set xs. p x = Inr (q x) \<Longrightarrow> filterE p xs = Inr (filter q xs)"
  by (induction xs) auto

lemma mapE_pure:
  "\<forall>x\<in>set xs. f x = Inr (g x) \<Longrightarrow> mapE f xs = Inr (map g xs)"
  by (induction xs) auto

lemma mapE_length: "mapE f xs = Inr ys \<Longrightarrow> length ys = length xs"
  by (induction xs arbitrary: ys) (auto split: sum.splits)

lemma isTargetEntry_True:
  assumes "isTargetEntry w d e = Inr True"
  shows "\<exists>ts t. getProp e ''timestamp'' = Inr (Some ts) \<and> truthy ts \<and> parseISO w ts = Inr (Date t)"
proof -
  from assms obtain ts where ts: "getProp e ''timestamp'' = Inr (Some ts)" "truthy ts"
    by (auto simp: isTargetEntry_def split: sum.splits option.splits if_splits)
  with assms obtain ed tg where ed: "parseISO w ts = Inr ed" "isSameDay w ed tg"
    by (auto simp: isTargetEntry_def split: sum.splits option.splits if_splits)
  then obtain t where "ed = Date t" by (cases ed; cases tg) auto
  with ts ed show ?thesis by blast
qed

lemma target_hasTimestamp:
  "isTargetEntry w d e = Inr True \<Longrightarrow> hasTimestamp e = Inr True"
  using isTargetEntry_True [of w d e] by (auto simp: hasTimestamp_def)

lemma target_entryDate:
  "isTargetEntry w d e = Inr True \<Longrightarrow> entryDate w e = Inr (Date (timeOf w e))"
  using isTargetEntry_True [of w d e] by (auto simp: entryDate_def timeOf_def)

lemma getProp_Inr_isUserMessage:
  "getProp e k = Inr v \<Longrightarrow> isUserMessage e = Inr (qualifies e)"
  by (cases e) (auto simp: isUserMessage_def qualifies_def)

lemma target_isUserMessage:
  "isTargetEntry w d e = Inr True \<Longrightarrow> isUserMessage e = Inr (qualifies e)"
  using isTargetEntry_True [of w d e] getProp_Inr_isUserMessage by blast

lemma insort_key_Date:
  "insort_key timeKey (Date a) (map Date xs) = map Date (insort a xs)"
  by (induction xs) auto

lemma sort_key_Date: "sort_key timeKey (map Date ts) = map Date (sort ts)"
  by (induction ts) (auto simp: insort_key_Date)

lemma sorted_nth0_Min:
  fixes xs :: "int list"
  assumes "sorted xs" "xs \<noteq> []"
  shows "xs ! 0 = Min (set xs)"
proof -
  from assms obtain y ys where xs: "xs = y # ys" by (cases xs) auto
  with assms have "\<forall>z\<in>set xs. y \<le> z" by auto
  then have "Min (set xs) = y" using xs by (intro Min_eqI) auto
  with xs show ?thesis by simp
qed

lemma sorted_le_last:
  fixes xs :: "int list"
  shows "sorted xs \<Longrightarrow> z \<in> set xs \<Longrightarrow> z \<le> last xs"
  by (induction xs) auto

lemma sorted_last_Max:
  fixes xs :: "int list"
  assumes "sorted xs" "xs \<noteq> []"
  shows "xs ! (length xs - 1) = Max (set xs)"
proof -
  have l: "xs ! (length xs - 1) = last xs" using assms by (simp add: last_conv_nth)
  have "\<forall>z\<in>set xs. z \<le> last xs"
    using assms sorted_le_last by blast
  then have "Max (set xs) = last xs" using assms by (intro Max_eqI) auto
  with l show ?thesis by simp
qed

lemma sorted_dates_ends:
  assumes "ts \<noteq> []"
  shows "sort_key timeKey (map Date ts) ! 0 = Date (Min (set ts))"
    and "sort_key timeKey (map Date ts) ! (length (sort_key timeKey (map Date ts)) - 1) = Date (Max (set ts))"
proof -
  have ne: "sort ts \<noteq> []" using assms by (metis length_sort length_0_conv)
  have pos: "0 < length (sort ts)" using assms by simp
  have s: "sorted (sort ts)" by simp
  have "map Date (sort ts) ! 0 = Date (sort ts ! 0)"
    using pos by (rule nth_map)
  then show "sort_key timeKey (map Date ts) ! 0 = Date (Min (set ts))"
    using sorted_nth0_Min [OF s ne] by (simp add: sort_key_Date)
  have "map Date (sort ts) ! (length (sort ts) - 1) = Date (sort ts ! (length (sort ts) - 1))"
    using pos by (intro nth_map) simp
  then show "sort_key timeKey (map Date ts) ! (length (sort_key timeKey (map Date ts)) - 1) = Date (Max (set ts))"
    using sorted_last_Max [OF s ne] by (simp add: sort_key_Date)
qed

lemma parseSessionFile_eq:
  assumes read: "readJsonlFile w f = Inr entries"
    and tgt: "filterE (isTargetEntry w d) entries = Inr tes"
  shows "parseSessionFile w f d p =
     (if tes = [] then Inr None
      else case mapE extractContent (filter qualifies tes) of
             Inl e \<Rightarrow> Inl e
           | Inr msgs \<Rightarrow> if msgs = [] then Inr None else Inr (Some (sessionOf w f p tes msgs)))"
proof (cases "tes = []")
  case True
  with read tgt show ?thesis by (simp add: parseSessionFile_def)
next
  case False
  from filterE_Inr [OF tgt] have all: "\<forall>e\<in>set tes. isTargetEntry w d e = Inr True" by auto
  have users: "filterE isUserMessage tes = Inr (filter qualifies tes)"
    using all target_isUserMessage by (intro filterE_pure) blast
  have stamped: "filterE hasTimestamp tes = Inr tes"
    using filterE_pure [of tes hasTimestamp "\<lambda>_. True"] all target_hasTimestamp by auto
  have dates: "mapE (entryDate w) tes = Inr (map Date (map (timeOf w) tes))"
    using mapE_pure [of tes "entryDate w" "\<lambda>e. Date (timeOf w e)"] all target_entryDate
    by (auto simp: comp_def)
  have ne: "map (timeOf w) tes \<noteq> []" using False by simp
  note ends = sorted_dates_ends [OF ne]
  have len: "length (sort_key timeKey (map Date (map (timeOf w) tes))) \<noteq> 0"
    using False by simp
  show ?thesis
  proof (cases "mapE extractContent (filter qualifies tes)")
    case (Inl e)
    with read tgt False users show ?thesis by (simp add: parseSessionFile_def)
  next
    case (Inr msgs)
    show ?thesis
    proof (cases "msgs = []")
      case True
      with Inr read tgt False users show ?thesis by (simp add: parseSessionFile_def)
    next
      case msgs: False
      have "parseSessionFile w f d p =
        (let timestamps = sort_key timeKey (map Date (map (timeOf w) tes)) in
         case calculateDuration w (timestamps ! 0) (timestamps ! (length timestamps - 1)) of
           Inl e \<Rightarrow> Inl e
         | Inr du \<Rightarrow>
            Inr (Some \<lparr> sessionId = pathBasename w f ''.jsonl'',
                      projectPath = p,
                      startTime = timestamps ! 0,
                      endTime = timestamps ! (length timestamps - 1),
                      duration = du,
                      messageCount = length msgs,
                      userMessages = msgs \<rparr>))"
        using Inr read tgt False users stamped dates msgs len
        by (simp add: parseSessionFile_def Let_def del: length_sort length_map)
      also have "\<dots> = Inr (Some (sessionOf w f p tes msgs))"
        using ends by (simp add: Let_def sessionOf_def del: length_sort length_map)
      finally show ?thesis using Inr msgs False by simp
    qed
  qed
qed

section \<open>Evaluating the sample history\<close>

lemmas line_defs = lineUser_def lineAssistant_def lineNextDay_def lineTool_def lineLate_def lineBad_def
lemmas entry_defs = entryUser_def entryAssistant_def entryNextDay_def entryTool_def entryLate_def

lemma demoParse_lines:
  "demoParse lineUser = Inr entryUser"
  "demoParse lineAssistant = Inr entryAssistant"
  "demoParse lineNextDay = Inr entryNextDay"
  "demoParse lineTool = Inr entryTool"
  "demoParse lineLate = Inr entryLate"
  "demoParse lineBad = Inl (Exn ''SyntaxError'' ''Unexpected end of JSON input'')"
  "demoParse [] = Inl (Exn ''SyntaxError'' ''Unexpected end of JSON input'')"
  by (simp_all add: demoParse_def line_defs)

lemma split_no_sep: "c \<notin> set a \<Longrightarrow> split c a = [a]"
  by (induction a) auto

lemma split_append_sep: "c \<notin> set a \<Longrightarrow> split c (a @ c # b) = a # split c b"
  by (induction a) auto

lemma split_joinWith:
  "ls \<noteq> [] \<Longrightarrow> \<forall>l\<in>set ls. c \<notin> set l \<Longrightarrow> split c (joinWith [c] ls) = ls"
proof (induction "[c]" ls rule: joinWith.induct)
  case 1
  then show ?case by simp
next
  case (2 p)
  then show ?case by (simp add: split_no_sep)
next
  case (3 p q ps)
  then show ?case by (simp add: split_append_sep)
qed

lemma trim_trailing: "isWhiteSpace c \<Longrightarrow> trim (s @ [c]) = trim s"
proof (cases "\<forall>x\<in>set s. isWhiteSpace x")
  assume c: "isWhiteSpace c"
  case True
  then have d1: "dropWhile isWhiteSpace s = []" by simp
  have d2: "dropWhile isWhiteSpace (s @ [c]) = []" using True c by simp
  show ?thesis unfolding trim_def d1 d2 by simp
next
  assume c: "isWhiteSpace c"
  case False
  then obtain x where "x \<in> set s" "\<not> isWhiteSpace x" by blast
  then have d: "dropWhile isWhiteSpace (s @ [c]) = dropWhile isWhiteSpace s @ [c]"
    by (intro dropWhile_append1) auto
  show ?thesis unfolding trim_def d using c by simp
qed

lemma trim_id:
  assumes "s \<noteq> []" "\<not> isWhiteSpace (hd s)" "\<not> isWhiteSpace (last s)"
  shows "trim s = s"
proof -
  have "dropWhile isWhiteSpace s = s" using assms by (cases s) auto
  moreover have "dropWhile isWhiteSpace (rev s) = rev s"
    using assms by (cases "rev s") (auto simp: last_rev [symmetric] simp del: last_rev)
  ultimately show ?thesis by (simp add: trim_def)
qed

lemma joinWith_ends:
  "ls \<noteq> [] \<Longrightarrow> \<forall>l\<in>set ls. l \<noteq> [] \<Longrightarrow>
     joinWith sep ls \<noteq> [] \<and> hd (joinWith sep ls) = hd (hd ls) \<and> last (joinWith sep ls) = last (last ls)"
  by (induction sep ls rule: joinWith.induct) auto

lemma line_facts:
  "CHR 0x0A \<notin> set lineUser" "CHR 0x0A \<notin> set lineAssistant" "CHR 0x0A \<notin> set lineNextDay"
  "CHR 0x0A \<notin> set lineTool" "CHR 0x0A \<notin> set lineLate" "CHR 0x0A \<notin> set lineBad"
  "lineUser \<noteq> []" "lineAssistant \<noteq> []" "lineNextDay \<noteq> []" "lineTool \<noteq> []" "lineLate \<noteq> []"
  "hd lineUser = CHR ''{''" "hd lineAssistant = CHR ''{''" "hd lineTool = CHR ''{''"
  "last lineUser = CHR ''}''" "last lineNextDay = CHR ''}''" "last lineLate = CHR ''}''"
  by (simp_all add: line_defs)

lemma lines_of_file:
  assumes "ls \<noteq> []" "\<forall>l\<in>set ls. l \<noteq> [] \<and> CHR 0x0A \<notin> set l"
    "\<not> isWhiteSpace (hd (hd ls))" "\<not> isWhiteSpace (last (last ls))"
  shows "split CHR 0x0A (trim (joinWith [CHR 0x0A] ls)) = ls"
    and "split CHR 0x0A (trim (joinWith [CHR 0x0A] ls @ [CHR 0x0A])) = ls"
proof -
  have e: "joinWith [CHR 0x0A] ls \<noteq> [] \<and> hd (joinWith [CHR 0x0A] ls) = hd (hd ls)
         \<and> last (joinWith [CHR 0x0A] ls) = last (last ls)"
    using assms by (intro joinWith_ends) auto
  then have t: "trim (joinWith [CHR 0x0A] ls) = joinWith [CHR 0x0A] ls"
    using assms by (intro trim_id) auto
  have s: "split CHR 0x0A (joinWith [CHR 0x0A] ls) = ls"
    using assms by (intro split_joinWith) auto
  show "split CHR 0x0A (trim (joinWith [CHR 0x0A] ls)) = ls" using t s by simp
  have "trim (joinWith [CHR 0x0A] ls @ [CHR 0x0A]) = trim (joinWith [CHR 0x0A] ls)"
    by (intro trim_trailing) (simp add: isWhiteSpace_def)
  then show "split CHR 0x0A (trim (joinWith [CHR 0x0A] ls @ [CHR 0x0A])) = ls" using t s by simp
qed

lemma demo_lines:
  "split CHR 0x0A (trim fileS1) = [lineUser, lineAssistant, lineNextDay]"
  "split CHR 0x0A (trim fileS2) =
     [lineUser, lineAssistant, lineUser, lineBad, lineAssistant,
      lineUser, lineAssistant, lineUser, lineAssistant, lineUser]"
  "split CHR 0x0A (trim fileS4) = [lineAssistant, lineLate]"
  "split CHR 0x0A (trim fileT1) = [lineTool, lineLate]"
  unfolding fileS1_def fileS2_def fileS4_def fileT1_def
  by (intro lines_of_file; simp add: line_facts isWhiteSpace_def; simp add: lineBad_def)+

lemma demo_lines_blank: "split CHR 0x0A (trim fileS3) = [[]]"
  by (simp add: fileS3_def trim_def isWhiteSpace_def)

lemma demo_world_sel [simp]:
  "readFileSync demoWorld = demoFiles"
  "readdirSync demoWorld = demoDirs"
  "statSync demoWorld = demoStat"
  "pathJoin demoWorld = (\<lambda>a b. a @ ''/'' @ b)"
  "pathBasename demoWorld = demoBasename"
  "jsonParse demoWorld = demoParse"
  "parseISO demoWorld = demoParseISO"
  "startOfDay demoWorld = (\<lambda>t. t - t mod 86400000)"
  by (simp_all add: demoWorld_def)

lemma demo_read:
  "readJsonlFile demoWorld ''/projects/-Users-dev-app/s1.jsonl'' = Inr [entryUser, entryAssistant, entryNextDay]"
  "readJsonlFile demoWorld ''/projects/-Users-dev-app/s4.jsonl'' = Inr [entryAssistant, entryLate]"
  "readJsonlFile demoWorld ''/projects/-Users-dev-web/t1.jsonl'' = Inr [entryTool, entryLate]"
  by (simp_all add: readJsonlFile_def demoFiles_def demo_lines demoParse_lines)

lemma demo_read_bad:
  "readJsonlFile demoWorld ''/projects/-Users-dev-app/s2.jsonl'' =
     Inl (Error ''Failed to read JSONL file /projects/-Users-dev-app/s2.jsonl: Error: Failed to parse line 4 in /projects/-Users-dev-app/s2.jsonl: SyntaxError: Unexpected end of JSON input'')"
  "readJsonlFile demoWorld ''/projects/-Users-dev-app/s3.jsonl'' =
     Inl (Error ''Failed to read JSONL file /projects/-Users-dev-app/s3.jsonl: Error: Failed to parse line 1 in /projects/-Users-dev-app/s3.jsonl: SyntaxError: Unexpected end of JSON input'')"
  by (simp_all add: readJsonlFile_def demoFiles_def demo_lines demo_lines_blank demoParse_lines Error_def showNat.simps)

lemma demo_target:
  "isTargetEntry demoWorld ''2025-07-03'' entryUser = Inr True"
  "isTargetEntry demoWorld ''2025-07-03'' entryAssistant = Inr True"
  "isTargetEntry demoWorld ''2025-07-03'' entryNextDay = Inr False"
  "isTargetEntry demoWorld ''2025-07-03'' entryTool = Inr True"
  "isTargetEntry demoWorld ''2025-07-03'' entryLate = Inr True"
  by (simp_all add: isTargetEntry_def entry_defs demoParseISO_def)

lemma demo_target_bad_date:
  "isTargetEntry demoWorld ''not-a-date'' entryUser = Inr False"
  "isTargetEntry demoWorld ''not-a-date'' entryAssistant = Inr False"
  "isTargetEntry demoWorld ''not-a-date'' entryNextDay = Inr False"
  "isTargetEntry demoWorld ''not-a-date'' entryLate = Inr False"
  by (simp_all add: isTargetEntry_def entry_defs demoParseISO_def)

lemma demo_qualifies:
  "qualifies entryUser" "\<not> qualifies entryAssistant" "qualifies entryTool" "\<not> qualifies entryLate"
  by (simp_all add: qualifies_def entry_defs)

lemma demo_timeOf:
  "timeOf demoWorld entryUser = 1751533200000"
  "timeOf demoWorld entryAssistant = 1751534100000"
  "timeOf demoWorld entryTool = 1751536800000"
  "timeOf demoWorld entryLate = 1751539500000"
  by (simp_all add: timeOf_def entryDate_def entry_defs demoParseISO_def)

lemma demo_content:
  "extractContent entryUser = Inr (JStr ''fix bug'')"
  "extractContent entryTool = Inr (JStr ''add tests'')"
  by (simp_all add: extractContent_def entry_defs)

lemma demo_basename:
  "demoBasename ''/projects/-Users-dev-app/s1.jsonl'' ''.jsonl'' = ''s1''"
  "demoBasename ''/projects/-Users-dev-web/t1.jsonl'' ''.jsonl'' = ''t1''"
  by (simp_all add: demoBasename_def endsWith_def Let_def)

lemma demo_session_s1:
  "parseSessionFile demoWorld ''/projects/-Users-dev-app/s1.jsonl'' ''2025-07-03'' ''Users/dev/app'' =
     Inr (Some \<lparr> sessionId = ''s1'', projectPath = ''Users/dev/app'',
                 startTime = Date 1751533200000, endTime = Date 1751534100000,
                 duration = 15, messageCount = 1, userMessages = [JStr ''fix bug''] \<rparr>)"
  by (simp add: parseSessionFile_eq [OF demo_read(1), of "''2025-07-03''" "[entryUser, entryAssistant]"]
      demo_target demo_qualifies demo_content sessionOf_def demo_timeOf demo_basename differenceInMinutes_def)

section \<open>Instruction text\<close>

lemma findText_find:
  "JNull \<notin> set items \<Longrightarrow> findText items = Inr (find isTextPart items)"
proof (induction items)
  case Nil
  then show ?case by simp
next
  case (Cons item items)
  then have "item \<noteq> JNull" by auto
  then obtain v where "getProp item ''type'' = Inr v" by (cases item) auto
  with Cons show ?case by (auto simp: isTextPart_def)
qed

lemma qualifies_message:
  "qualifies entry \<Longrightarrow> \<exists>m. getProp entry ''message'' = Inr m"
  by (auto simp: qualifies_def split: sum.splits)

text \<open>
  C5 (as amended). For every qualifying user entry the extracted instruction is the content
  itself when the content is a string. When the content is an array none of whose parts is
  \<^verbatim>\<open>null\<close>, it is the \<open>text\<close> of the first part whose type is \<open>text\<close> provided that
  text is present and truthy (for a string: non-empty); it is the placeholder
  \<open>[Tool use]\<close> when there is no text part or the text of the first text part is missing
  or falsy. Any other content, absent content included, gives the placeholder
  \<open>[Unknown content]\<close> and no error.
\<close>

theorem extractContent_qualifying:
  assumes "qualifies entry"
  shows "(\<forall>s. contentOf entry = Some (JStr s) \<longrightarrow> extractContent entry = Inr (JStr s))
    \<and> (\<forall>parts. contentOf entry = Some (JArr parts) \<and> JNull \<notin> set parts \<longrightarrow>
          extractContent entry =
            Inr (case find isTextPart parts of
                   None \<Rightarrow> JStr ''[Tool use]''
                 | Some part \<Rightarrow>
                     (case optChain (Some part) ''text'' of
                        None \<Rightarrow> JStr ''[Tool use]''
                      | Some t \<Rightarrow> if truthy t then t else JStr ''[Tool use]'')))
    \<and> ((\<forall>s. contentOf entry \<noteq> Some (JStr s)) \<and> (\<forall>parts. contentOf entry \<noteq> Some (JArr parts)) \<longrightarrow>
          extractContent entry = Inr (JStr ''[Unknown content]''))"
proof -
  from assms obtain m where m: "getProp entry ''message'' = Inr m"
    using qualifies_message by blast
  then have c: "contentOf entry = optChain m ''content''" by (simp add: contentOf_def)
  have 1: "\<forall>s. contentOf entry = Some (JStr s) \<longrightarrow> extractContent entry = Inr (JStr s)"
    using m c by (simp add: extractContent_def)
  have 2: "\<forall>parts. contentOf entry = Some (JArr parts) \<and> JNull \<notin> set parts \<longrightarrow>
          extractContent entry =
            Inr (case find isTextPart parts of
                   None \<Rightarrow> JStr ''[Tool use]''
                 | Some part \<Rightarrow>
                     (case optChain (Some part) ''text'' of
                        None \<Rightarrow> JStr ''[Tool use]''
                      | Some t \<Rightarrow> if truthy t then t else JStr ''[Tool use]''))"
    using m c by (auto simp: extractContent_def findText_find split: option.splits)
  have 3: "(\<forall>s. contentOf entry \<noteq> Some (JStr s)) \<and> (\<forall>parts. contentOf entry \<noteq> Some (JArr parts)) \<longrightarrow>
          extractContent entry = Inr (JStr ''[Unknown content]'')"
    using m c by (auto simp: extractContent_def split: option.splits json.splits)
  from 1 2 3 show ?thesis by blast
qed

text \<open>
  The three cases on sample entries: a string, an array whose second part is the text part,
  and an object.
\<close>

theorem extractContent_qualifying_witness:
  "extractContent entryUser = Inr (JStr ''fix bug'')
   \<and> extractContent entryTool = Inr (JStr ''add tests'')
   \<and> extractContent entryImage = Inr (JStr ''[Unknown content]'')"
proof -
  have q: "qualifies entryUser" "qualifies entryTool" "qualifies entryImage"
    by (simp_all add: qualifies_def entry_defs entryImage_def)
  have "contentOf entryUser = Some (JStr ''fix bug'')"
    by (simp add: contentOf_def entry_defs)
  then have 1: "extractContent entryUser = Inr (JStr ''fix bug'')"
    using extractContent_qualifying [OF q(1)] by blast
  have "contentOf entryTool =
      Some (JArr [JObj [(''type'', JStr ''tool_result'')],
                  JObj [(''type'', JStr ''text''), (''text'', JStr ''add tests'')]])"
    by (simp add: contentOf_def entry_defs)
  then have 2: "extractContent entryTool = Inr (JStr ''add tests'')"
    using extractContent_qualifying [OF q(2)] by (simp add: isTextPart_def)
  have "contentOf entryImage = Some (JObj [(''type'', JStr ''image'')])"
    by (simp add: contentOf_def entryImage_def)
  then have 3: "extractContent entryImage = Inr (JStr ''[Unknown content]'')"
    using extractContent_qualifying [OF q(3)] by simp
  from 1 2 3 show ?thesis by blast
qed

text \<open>
  C5 as stated fails on a qualifying entry whose content is
  \<^verbatim>\<open>[{"type":"text","text":""}]\<close>: a text part exists, and the placeholder is used.
\<close>

theorem placeholder_despite_text_part_counterexample:
  "qualifies entryEmptyText
   \<and> contentOf entryEmptyText = Some (JArr [JObj [(''type'', JStr ''text''), (''text'', JStr '''')]])
   \<and> isTextPart (JObj [(''type'', JStr ''text''), (''text'', JStr '''')])
   \<and> extractContent entryEmptyText = Inr (JStr ''[Tool use]'')"
  by (simp add: qualifies_def contentOf_def isTextPart_def extractContent_def entryEmptyText_def)

section \<open>Session reconstruction\<close>

text \<open>
  C4. When the entries of a file that fall on the target date contain no qualifying user
  instruction (type \<open>user\<close> and role \<open>user\<close>), \<open>parseSessionFile\<close> returns
  \<^verbatim>\<open>null\<close>, whatever other entries (assistant ones included) that date has, and the file
  adds no session and no error to the project.
\<close>

theorem no_user_instruction_no_session:
  assumes "readJsonlFile w f = Inr entries"
    and "filterE (isTargetEntry w d) entries = Inr tes"
    and "filter qualifies tes = []"
  shows "parseSessionFile w f d p = Inr None \<and> sessionStep w d p st f = st"
proof -
  have "parseSessionFile w f d p = Inr None"
    using parseSessionFile_eq [OF assms(1,2)] assms(3) by simp
  then show ?thesis by (simp add: sessionStep_def)
qed

text \<open>A sample file with two assistant entries on the target date and no user entry.\<close>

theorem no_user_instruction_no_session_witness:
  "filterE (isTargetEntry demoWorld ''2025-07-03'') [entryAssistant, entryLate] = Inr [entryAssistant, entryLate]
   \<and> parseSessionFile demoWorld ''/projects/-Users-dev-app/s4.jsonl'' ''2025-07-03'' ''Users/dev/app'' = Inr None
   \<and> sessionStep demoWorld ''2025-07-03'' ''Users/dev/app'' ([], demoParser) ''/projects/-Users-dev-app/s4.jsonl''
       = ([], demoParser)"
proof -
  have t: "filterE (isTargetEntry demoWorld ''2025-07-03'') [entryAssistant, entryLate] = Inr [entryAssistant, entryLate]"
    by (simp add: demo_target)
  have q: "filter qualifies [entryAssistant, entryLate] = []"
    by (simp add: demo_qualifies)
  show ?thesis
    using no_user_instruction_no_session [OF demo_read(2) t q] t by simp
qed

text \<open>
  C6. In every session that \<open>parseSessionFile\<close> returns, \<open>startTime\<close> and
  \<open>endTime\<close> are the least and the greatest time value among all entries of the target date
  (each of them carries a valid timestamp; assistant entries count), \<open>duration\<close> is their
  difference in whole minutes, it is never negative, and it is 0 when these entries have
  exactly one time value.
\<close>

theorem session_bounds:
  assumes "readJsonlFile w f = Inr entries"
    and "filterE (isTargetEntry w d) entries = Inr tes"
    and "parseSessionFile w f d p = Inr (Some s)"
  shows "tes \<noteq> []
    \<and> (\<forall>e\<in>set tes. entryDate w e = Inr (Date (timeOf w e)))
    \<and> startTime s = Date (Min (timeOf w ` set tes))
    \<and> endTime s = Date (Max (timeOf w ` set tes))
    \<and> duration s = (Max (timeOf w ` set tes) - Min (timeOf w ` set tes)) div 60000
    \<and> 0 \<le> duration s
    \<and> (card (timeOf w ` set tes) = 1 \<longrightarrow> duration s = 0)"
proof -
  let ?T = "timeOf w ` set tes"
  from assms(3) parseSessionFile_eq [OF assms(1,2), of p] have ne: "tes \<noteq> []"
    by (auto split: if_splits)
  with assms(3) parseSessionFile_eq [OF assms(1,2), of p]
  obtain msgs where s: "s = sessionOf w f p tes msgs"
    by (auto split: if_splits sum.splits)
  have fin: "finite ?T" "?T \<noteq> {}" using ne by auto
  then have le: "Min ?T \<le> Max ?T" by (meson Max_in Min_le)
  from filterE_Inr [OF assms(2)] have "\<forall>e\<in>set tes. isTargetEntry w d e = Inr True" by auto
  then have dates: "\<forall>e\<in>set tes. entryDate w e = Inr (Date (timeOf w e))"
    using target_entryDate by blast
  have dur: "duration s = (Max ?T - Min ?T) div 60000"
    using le by (simp add: s sessionOf_def differenceInMinutes_def)
  have nonneg: "0 \<le> duration s" using le dur by simp
  have one: "card ?T = 1 \<longrightarrow> duration s = 0"
  proof
    assume "card ?T = 1"
    then obtain t where "?T = {t}" by (auto simp: card_1_singleton_iff)
    then show "duration s = 0" using dur by simp
  qed
  from ne dates dur nonneg one show ?thesis by (simp add: s sessionOf_def)
qed

text \<open>The first sample file: a user entry at 09:00, an assistant entry at 09:15.\<close>

theorem session_bounds_witness:
  "startTime \<lparr> sessionId = ''s1'', projectPath = ''Users/dev/app'',
                 startTime = Date 1751533200000, endTime = Date 1751534100000,
                 duration = 15, messageCount = 1, userMessages = [JStr ''fix bug''] \<rparr>
     = Date (Min (timeOf demoWorld ` set [entryUser, entryAssistant]))
   \<and> Min (timeOf demoWorld ` set [entryUser, entryAssistant]) = 1751533200000
   \<and> Max (timeOf demoWorld ` set [entryUser, entryAssistant]) = 1751534100000
   \<and> (1751534100000 - 1751533200000) div 60000 = (15::int)"
proof -
  have t: "filterE (isTargetEntry demoWorld ''2025-07-03'') [entryUser, entryAssistant, entryNextDay]
             = Inr [entryUser, entryAssistant]"
    by (simp add: demo_target)
  show ?thesis
    using session_bounds [OF demo_read(1) t demo_session_s1] by (simp add: demo_timeOf)
qed

section \<open>Reading a session file\<close>

lemma errToString_Error: "m \<noteq> [] \<Longrightarrow> errToString (Error m) = ''Error: '' @ m"
  by (simp add: Error_def)

lemma parseLines_first_failure:
  assumes "k < length ls"
    and "jsonParse w (ls ! k) = Inl e"
    and "\<forall>j<k. \<exists>v. jsonParse w (ls ! j) = Inr v"
  shows "parseLines w f i ls =
     Inl (Error (''Failed to parse line '' @ showNat (i + k + 1) @ '' in '' @ f @ '': '' @ errToString e))"
  using assms
proof (induction ls arbitrary: i k)
  case Nil
  then show ?case by simp
next
  case (Cons l ls)
  show ?case
  proof (cases k)
    case 0
    with Cons.prems show ?thesis by simp
  next
    case (Suc k')
    from Cons.prems(3) Suc obtain v where v: "jsonParse w l = Inr v" by fastforce
    have "parseLines w f (i + 1) ls =
        Inl (Error (''Failed to parse line '' @ showNat (i + 1 + k' + 1) @ '' in '' @ f @ '': '' @ errToString e))"
    proof (rule Cons.IH)
      show "k' < length ls" using Cons.prems(1) Suc by simp
      show "jsonParse w (ls ! k') = Inl e" using Cons.prems(2) Suc by simp
      show "\<forall>j<k'. \<exists>v. jsonParse w (ls ! j) = Inr v"
      proof (intro allI impI)
        fix j assume "j < k'"
        then have "Suc j < k" using Suc by simp
        with Cons.prems(3) have "\<exists>v. jsonParse w ((l # ls) ! Suc j) = Inr v" by blast
        then show "\<exists>v. jsonParse w (ls ! j) = Inr v" by simp
      qed
    qed
    with v Suc show ?thesis by simp
  qed
qed

lemma readJsonlFile_first_failure:
  assumes "readFileSync w f = Inr content"
    and "k < length (split CHR 0x0A (trim content))"
    and "jsonParse w (split CHR 0x0A (trim content) ! k) = Inl e"
    and "\<forall>j<k. \<exists>v. jsonParse w (split CHR 0x0A (trim content) ! j) = Inr v"
  shows "readJsonlFile w f = Inl (lineFailure f (k + 1) e)"
  using parseLines_first_failure [OF assms(2,3,4), of f 0] assms(1)
  by (simp add: readJsonlFile_def lineFailure_def errToString_Error)

lemma sessionStep_read_failure:
  assumes "readJsonlFile w f = Inl err"
  shows "parseSessionFile w f d p = Inl err"
    and "sessionStep w d p st f = (fst st, (snd st)\<lparr> errors := errors (snd st) @ [fileFailure f err] \<rparr>)"
proof -
  show "parseSessionFile w f d p = Inl err" using assms by (simp add: parseSessionFile_def)
  then show "sessionStep w d p st f = (fst st, (snd st)\<lparr> errors := errors (snd st) @ [fileFailure f err] \<rparr>)"
    by (simp add: sessionStep_def fileFailure_def)
qed

lemma trim_all_white: "\<forall>c\<in>set s. isWhiteSpace c \<Longrightarrow> trim s = []"
proof -
  assume "\<forall>c\<in>set s. isWhiteSpace c"
  then have d: "dropWhile isWhiteSpace s = []" by simp
  show ?thesis unfolding trim_def d by simp
qed

lemma parseLines_jsonParse:
  "jsonParse w' = jsonParse w \<Longrightarrow> parseLines w' f i ls = parseLines w f i ls"
  by (induction ls arbitrary: i) (auto split: sum.splits)

text \<open>
  C1 (as amended). For every log file that can be opened, a line that fails to parse makes the
  read of the whole file fail at the first such line: \<open>readJsonlFile\<close> throws, no line is
  skipped and no session is built from the file. The loop over the session files records
  exactly one failure for it, carrying the file and the line number 0 (the 1-based number of
  the failing line appears in the message only), keeps the sessions collected so far and goes
  on with the next file.
\<close>

theorem malformed_line_fails_file:
  assumes "readFileSync w f = Inr content"
    and "k < length (split CHR 0x0A (trim content))"
    and "jsonParse w (split CHR 0x0A (trim content) ! k) = Inl e"
    and "\<forall>j<k. \<exists>v. jsonParse w (split CHR 0x0A (trim content) ! j) = Inr v"
  shows "readJsonlFile w f = Inl (lineFailure f (k + 1) e)
    \<and> parseSessionFile w f d p = Inl (lineFailure f (k + 1) e)
    \<and> sessionStep w d p st f =
        (fst st, (snd st)\<lparr> errors := errors (snd st) @ [fileFailure f (lineFailure f (k + 1) e)] \<rparr>)
    \<and> file (fileFailure f (lineFailure f (k + 1) e)) = f
    \<and> line (fileFailure f (lineFailure f (k + 1) e)) = 0"
  using readJsonlFile_first_failure [OF assms]
    sessionStep_read_failure [OF readJsonlFile_first_failure [OF assms]]
  by (simp add: fileFailure_def)

text \<open>The second sample file: ten lines, the fourth of them cut short.\<close>

theorem malformed_line_fails_file_witness:
  "sessionStep demoWorld ''2025-07-03'' ''Users/dev/app'' ([], demoParser) ''/projects/-Users-dev-app/s2.jsonl''
     = ([], demoParser\<lparr> errors :=
          [fileFailure ''/projects/-Users-dev-app/s2.jsonl''
             (lineFailure ''/projects/-Users-dev-app/s2.jsonl'' 4
                (Exn ''SyntaxError'' ''Unexpected end of JSON input''))] \<rparr>)"
proof -
  have r: "readFileSync demoWorld ''/projects/-Users-dev-app/s2.jsonl'' = Inr fileS2"
    by (simp add: demoFiles_def)
  have k: "3 < length (split CHR 0x0A (trim fileS2))"
    by (simp add: demo_lines)
  have b: "jsonParse demoWorld (split CHR 0x0A (trim fileS2) ! 3)
             = Inl (Exn ''SyntaxError'' ''Unexpected end of JSON input'')"
    by (simp add: demo_lines demoParse_lines)
  have g: "\<forall>j<3. \<exists>v. jsonParse demoWorld (split CHR 0x0A (trim fileS2) ! j) = Inr v"
    by (simp add: demo_lines demoParse_lines less_Suc_eq eval_nat_numeral)
  show ?thesis
    using malformed_line_fails_file [OF r k b g] by (simp add: demoParser_def)
qed

text \<open>
  C1 as stated fails on that file: its ten lines are nine valid ones and one malformed one,
  and it yields no session, and a failure whose line number is 0, not 4.
\<close>

theorem malformed_line_counterexample:
  "readFileSync demoWorld ''/projects/-Users-dev-app/s2.jsonl'' = Inr fileS2
   \<and> map (jsonParse demoWorld) (split CHR 0x0A (trim fileS2)) =
       [Inr entryUser, Inr entryAssistant, Inr entryUser,
        Inl (Exn ''SyntaxError'' ''Unexpected end of JSON input''),
        Inr entryAssistant, Inr entryUser, Inr entryAssistant, Inr entryUser,
        Inr entryAssistant, Inr entryUser]
   \<and> fst (sessionStep demoWorld ''2025-07-03'' ''Users/dev/app'' ([], demoParser)
            ''/projects/-Users-dev-app/s2.jsonl'') = []
   \<and> map line (errors (snd (sessionStep demoWorld ''2025-07-03'' ''Users/dev/app'' ([], demoParser)
            ''/projects/-Users-dev-app/s2.jsonl''))) = [0]"
proof (intro conjI)
  show "readFileSync demoWorld ''/projects/-Users-dev-app/s2.jsonl'' = Inr fileS2"
    by (simp add: demoFiles_def)
  show "map (jsonParse demoWorld) (split CHR 0x0A (trim fileS2)) =
       [Inr entryUser, Inr entryAssistant, Inr entryUser,
        Inl (Exn ''SyntaxError'' ''Unexpected end of JSON input''),
        Inr entryAssistant, Inr entryUser, Inr entryAssistant, Inr entryUser,
        Inr entryAssistant, Inr entryUser]"
    by (simp add: demo_lines demoParse_lines)
  have p: "parseSessionFile demoWorld ''/projects/-Users-dev-app/s2.jsonl'' ''2025-07-03'' ''Users/dev/app''
      = Inl (Error ''Failed to read JSONL file /projects/-Users-dev-app/s2.jsonl: Error: Failed to parse line 4 in /projects/-Users-dev-app/s2.jsonl: SyntaxError: Unexpected end of JSON input'')"
    by (simp add: parseSessionFile_def demo_read_bad)
  show "fst (sessionStep demoWorld ''2025-07-03'' ''Users/dev/app'' ([], demoParser)
            ''/projects/-Users-dev-app/s2.jsonl'') = []"
    by (simp add: sessionStep_def p)
  show "map line (errors (snd (sessionStep demoWorld ''2025-07-03'' ''Users/dev/app'' ([], demoParser)
            ''/projects/-Users-dev-app/s2.jsonl''))) = [0]"
    by (simp add: sessionStep_def p demoParser_def)
qed

text \<open>
  C10. A log file whose content is empty or white space only fails as a whole, given that
  \<^verbatim>\<open>JSON.parse\<close> rejects the empty text: trimming leaves the empty string, which splits
  into one empty line; the loop over the session files records one failure with line number 0
  for the file and takes no session from it. A file with one more newline at its end reads as
  the file without it: no extra record, no extra failure.
\<close>

theorem blank_file_fails:
  assumes "readFileSync w f = Inr content"
    and "\<forall>c\<in>set content. isWhiteSpace c"
    and "jsonParse w [] = Inl e"
  shows "split CHR 0x0A (trim content) = [[]]
    \<and> readJsonlFile w f = Inl (lineFailure f 1 e)
    \<and> sessionStep w d p st f =
        (fst st, (snd st)\<lparr> errors := errors (snd st) @ [fileFailure f (lineFailure f 1 e)] \<rparr>)
    \<and> line (fileFailure f (lineFailure f 1 e)) = 0
    \<and> readJsonlFile (w\<lparr> readFileSync := (readFileSync w)(f := Inr (body @ [CHR 0x0A])) \<rparr>) f
        = readJsonlFile (w\<lparr> readFileSync := (readFileSync w)(f := Inr body) \<rparr>) f"
proof -
  have l: "split CHR 0x0A (trim content) = [[]]"
    using assms(2) by (simp add: trim_all_white)
  have r: "readJsonlFile w f = Inl (lineFailure f 1 e)"
    using readJsonlFile_first_failure [OF assms(1), of 0 e] l assms(3) by simp
  have t: "trim (body @ [CHR 0x0A]) = trim body"
    by (intro trim_trailing) (simp add: isWhiteSpace_def)
  have n: "readJsonlFile (w\<lparr> readFileSync := (readFileSync w)(f := Inr (body @ [CHR 0x0A])) \<rparr>) f
        = readJsonlFile (w\<lparr> readFileSync := (readFileSync w)(f := Inr body) \<rparr>) f"
  proof -
    have a: "parseLines (w\<lparr> readFileSync := (readFileSync w)(f := Inr (body @ [CHR 0x0A])) \<rparr>) f 0
               (split CHR 0x0A (trim body)) = parseLines w f 0 (split CHR 0x0A (trim body))"
      by (rule parseLines_jsonParse) simp
    have b: "parseLines (w\<lparr> readFileSync := (readFileSync w)(f := Inr body) \<rparr>) f 0
               (split CHR 0x0A (trim body)) = parseLines w f 0 (split CHR 0x0A (trim body))"
      by (rule parseLines_jsonParse) simp
    show ?thesis by (simp add: readJsonlFile_def t a b)
  qed
  show ?thesis
    using l r sessionStep_read_failure(2) [OF r] n by (simp add: fileFailure_def)
qed

text \<open>The third sample file holds a space and a newline.\<close>

theorem blank_file_fails_witness:
  "sessionStep demoWorld ''2025-07-03'' ''Users/dev/app'' ([], demoParser) ''/projects/-Users-dev-app/s3.jsonl''
     = ([], demoParser\<lparr> errors :=
          [fileFailure ''/projects/-Users-dev-app/s3.jsonl''
             (lineFailure ''/projects/-Users-dev-app/s3.jsonl'' 1
                (Exn ''SyntaxError'' ''Unexpected end of JSON input''))] \<rparr>)
   \<and> readJsonlFile (demoWorld\<lparr> readFileSync := (readFileSync demoWorld)
          (''/projects/-Users-dev-app/s3.jsonl'' := Inr (lineUser @ [CHR 0x0A])) \<rparr>)
        ''/projects/-Users-dev-app/s3.jsonl''
     = readJsonlFile (demoWorld\<lparr> readFileSync := (readFileSync demoWorld)
          (''/projects/-Users-dev-app/s3.jsonl'' := Inr lineUser) \<rparr>)
        ''/projects/-Users-dev-app/s3.jsonl''"
proof -
  have r: "readFileSync demoWorld ''/projects/-Users-dev-app/s3.jsonl'' = Inr fileS3"
    by (simp add: demoFiles_def)
  have ws: "\<forall>c\<in>set fileS3. isWhiteSpace c"
    by (simp add: fileS3_def isWhiteSpace_def)
  have e: "jsonParse demoWorld [] = Inl (Exn ''SyntaxError'' ''Unexpected end of JSON input'')"
    by (simp add: demoParse_lines)
  show ?thesis
    using blank_file_fails [OF r ws e, of "''2025-07-03''" "''Users/dev/app''" "([], demoParser)" lineUser]
    by (simp add: demoParser_def)
qed

section \<open>Facts about the loops\<close>

lemma foldl_plus_sum_list:
  fixes a :: "'b::comm_monoid_add"
  shows "foldl (\<lambda>sum x. sum + f x) a xs = a + sum_list (map f xs)"
  by (induction xs arbitrary: a) (auto simp: add.assoc)

lemma sessionStep_fst:
  "fst (sessionStep w d p (ss, this) f) = ss @ scannedSessions w d p [f]"
  by (auto simp: sessionStep_def scannedSessions_def map_filter_simps split: sum.splits option.splits)

lemma sessionStep_path:
  "claudeProjectsPath (snd (sessionStep w d p st f)) = claudeProjectsPath (snd st)"
  by (auto simp: sessionStep_def split: sum.splits option.splits)

lemma scannedSessions_Cons:
  "scannedSessions w d p (f # fs) = scannedSessions w d p [f] @ scannedSessions w d p fs"
  by (auto simp: scannedSessions_def map_filter_simps split: sum.splits option.splits)

lemma foldl_sessionStep_fst:
  "fst (foldl (sessionStep w d p) (ss, this) files) = ss @ scannedSessions w d p files"
proof (induction files arbitrary: ss this)
  case Nil
  then show ?case by (simp add: scannedSessions_def map_filter_simps)
next
  case (Cons f fs)
  obtain ss' this' where st: "sessionStep w d p (ss, this) f = (ss', this')"
    by (cases "sessionStep w d p (ss, this) f") auto
  then have "ss' = ss @ scannedSessions w d p [f]"
    using sessionStep_fst [of w d p ss this f] by simp
  then show ?case
    using Cons.IH [of ss' this'] st scannedSessions_Cons [of w d p f fs] by simp
qed

lemma foldl_sessionStep_path:
  "claudeProjectsPath (snd (foldl (sessionStep w d p) st files)) = claudeProjectsPath (snd st)"
  by (induction files arbitrary: st) (auto simp: sessionStep_path)

lemma parseProjectForDate_snd:
  "snd (parseProjectForDate w this projectDir d) =
     (case getJsonlFiles w (pathJoin w (claudeProjectsPath this) projectDir) of
        Inl e \<Rightarrow> Inl e
      | Inr files \<Rightarrow>
          if scannedSessions w d (extractProjectPath projectDir) files = [] then Inr None
          else Inr (Some (projectRecord projectDir d
                            (scannedSessions w d (extractProjectPath projectDir) files))))"
proof (cases "getJsonlFiles w (pathJoin w (claudeProjectsPath this) projectDir)")
  case (Inl e)
  then show ?thesis by (simp add: parseProjectForDate_def)
next
  case (Inr files)
  show ?thesis
  proof (cases "files = []")
    case True
    with Inr show ?thesis
      by (simp add: parseProjectForDate_def scannedSessions_def map_filter_simps)
  next
    case False
    have f: "fst (foldl (sessionStep w d (extractProjectPath projectDir)) ([], this) files)
             = scannedSessions w d (extractProjectPath projectDir) files"
      using foldl_sessionStep_fst [of w d _ "[]" this files] by simp
    show ?thesis
      using Inr False
      by (simp add: parseProjectForDate_def Let_def f projectRecord_def foldl_plus_sum_list)
  qed
qed

lemma parseProjectForDate_path:
  "claudeProjectsPath (fst (parseProjectForDate w this projectDir d)) = claudeProjectsPath this"
  by (auto simp: parseProjectForDate_def Let_def foldl_sessionStep_path split: sum.splits)

lemma parseProjectForDate_snd_root:
  "claudeProjectsPath this = rootDir \<Longrightarrow>
   snd (parseProjectForDate w this projectDir d) =
   snd (parseProjectForDate w \<lparr> claudeProjectsPath = rootDir, errors = [], warnings = [] \<rparr> projectDir d)"
  by (simp add: parseProjectForDate_snd)

lemma projectOf_Some:
  assumes "projectOf w rootDir d projectDir = Some p"
  shows "\<exists>files. getJsonlFiles w (pathJoin w rootDir projectDir) = Inr files
           \<and> scannedSessions w d (extractProjectPath projectDir) files \<noteq> []
           \<and> p = projectRecord projectDir d (scannedSessions w d (extractProjectPath projectDir) files)"
  using assms
  by (auto simp: projectOf_def parseProjectForDate_snd split: sum.splits option.splits if_splits)

lemma projectStep_fst:
  assumes "claudeProjectsPath this = rootDir"
  shows "fst (projectStep w d (ps, this) projectDir) = ps @ scannedProjects w rootDir d [projectDir]"
proof -
  obtain this' r where pr: "parseProjectForDate w this projectDir d = (this', r)"
    by (cases "parseProjectForDate w this projectDir d") auto
  then have "r = snd (parseProjectForDate w \<lparr> claudeProjectsPath = rootDir, errors = [], warnings = [] \<rparr> projectDir d)"
    using parseProjectForDate_snd_root [OF assms, of w projectDir d] by simp
  then show ?thesis
    using pr
    by (auto simp: projectStep_def scannedProjects_def projectOf_def map_filter_simps
        split: sum.splits option.splits)
qed

lemma projectStep_path:
  "claudeProjectsPath (snd (projectStep w d st projectDir)) = claudeProjectsPath (snd st)"
proof -
  obtain this' r where pr: "parseProjectForDate w (snd st) projectDir d = (this', r)"
    by (cases "parseProjectForDate w (snd st) projectDir d") auto
  then have "claudeProjectsPath this' = claudeProjectsPath (snd st)"
    using parseProjectForDate_path [of w "snd st" projectDir d] by simp
  then show ?thesis
    using pr by (auto simp: projectStep_def split: sum.splits option.splits)
qed

lemma scannedProjects_Cons:
  "scannedProjects w rootDir d (x # xs) = scannedProjects w rootDir d [x] @ scannedProjects w rootDir d xs"
  by (auto simp: scannedProjects_def map_filter_simps split: option.splits)

lemma foldl_projectStep_fst:
  "claudeProjectsPath this = rootDir \<Longrightarrow>
   fst (foldl (projectStep w d) (ps, this) dirs) = ps @ scannedProjects w rootDir d dirs"
proof (induction dirs arbitrary: ps this)
  case Nil
  then show ?case by (simp add: scannedProjects_def map_filter_simps)
next
  case (Cons x xs)
  obtain ps' this' where st: "projectStep w d (ps, this) x = (ps', this')"
    by (cases "projectStep w d (ps, this) x") auto
  have p: "claudeProjectsPath this' = rootDir"
    using projectStep_path [of w d "(ps, this)" x] st Cons.prems by simp
  have "ps' = ps @ scannedProjects w rootDir d [x]"
    using projectStep_fst [OF Cons.prems, of w d ps x] st by simp
  then show ?case
    using Cons.IH [OF p, of ps'] st scannedProjects_Cons [of w rootDir d x xs] by simp
qed

lemma scannedProjects_set:
  "p \<in> set (scannedProjects w rootDir d dirs) \<Longrightarrow> \<exists>dir\<in>set dirs. projectOf w rootDir d dir = Some p"
  by (induction dirs) (auto simp: scannedProjects_def map_filter_simps split: option.splits)

lemma scannedSessions_set:
  "s \<in> set (scannedSessions w d p files) \<Longrightarrow>
     \<exists>f\<in>set files. parseSessionFile w f d p = Inr (Some s)"
  by (induction files)
    (auto simp: scannedSessions_def map_filter_simps split: sum.splits option.splits)

lemma parseSessionFile_Some_start:
  assumes "parseSessionFile w f d p = Inr (Some s)"
  shows "\<exists>t. startTime s = Date t"
proof -
  from assms obtain entries where r: "readJsonlFile w f = Inr entries"
    by (auto simp: parseSessionFile_def split: sum.splits)
  with assms obtain tes where t: "filterE (isTargetEntry w d) entries = Inr tes"
    by (auto simp: parseSessionFile_def split: sum.splits)
  from assms parseSessionFile_eq [OF r t, of p] show ?thesis
    by (auto simp: sessionOf_def split: if_splits sum.splits)
qed

lemma sort_key_eq_Nil: "sort_key f xs = [] \<longleftrightarrow> xs = []"
  by (metis length_sort length_0_conv)

lemma scannedProjects_Nil: "scannedProjects w rootDir d [] = []"
  by (simp add: scannedProjects_def map_filter_simps)

lemma getProjectDirectories_reset:
  "getProjectDirectories w (this\<lparr> errors := es, warnings := ws \<rparr>) = getProjectDirectories w this"
  by (simp add: getProjectDirectories_def split: sum.splits)

lemma calculateSummary_Nil:
  "calculateSummary [] = \<lparr> summaryTotalDuration = 0, summaryTotalMessages = 0,
                            projectCount = 0, sessionCount = 0 \<rparr>"
  by (simp add: calculateSummary_def)

lemma parseForDate_data:
  assumes "data (parseForDate w this d) = Some rep"
  shows "\<exists>dirs. getProjectDirectories w this = Inr dirs
    \<and> rep = \<lparr> reportDate = d,
              projects = sort_key (\<lambda>p. - totalDuration p)
                           (scannedProjects w (claudeProjectsPath this) d dirs),
              summary = calculateSummary (scannedProjects w (claudeProjectsPath this) d dirs) \<rparr>"
proof -
  let ?p0 = "this\<lparr> errors := [], warnings := [] \<rparr>"
  have path: "claudeProjectsPath ?p0 = claudeProjectsPath this" by simp
  obtain this1 res where t: "parseForDateTry w ?p0 d = (this1, res)"
    by (cases "parseForDateTry w ?p0 d") auto
  with assms obtain r where res: "res = Inr r" and r: "data r = Some rep"
    by (cases res) (auto simp: parseForDate_def failed_def)
  from t res obtain dirs where dirs: "getProjectDirectories w ?p0 = Inr dirs"
    by (auto simp: parseForDateTry_def split: sum.splits if_splits)
  have f: "fst (foldl (projectStep w d) ([], ?p0) dirs)
            = scannedProjects w (claudeProjectsPath this) d dirs"
    using foldl_projectStep_fst [OF path, of w d "[]" dirs] by simp
  from t res r dirs have
    "rep = \<lparr> reportDate = d,
              projects = sort_key (\<lambda>p. - totalDuration p)
                           (scannedProjects w (claudeProjectsPath this) d dirs),
              summary = calculateSummary (scannedProjects w (claudeProjectsPath this) d dirs) \<rparr>"
    by (auto simp: parseForDateTry_def Let_def f scannedProjects_Nil calculateSummary_Nil
        split: sum.splits if_splits)
  with dirs show ?thesis by (auto simp: getProjectDirectories_reset)
qed

lemma parseProjectOnly_data:
  assumes "data (parseProjectOnly w this n d) = Some rep"
  shows "\<exists>dirs dir ps. getProjectDirectories w this = Inr dirs
    \<and> find (\<lambda>x. extractProjectName x = n) dirs = Some dir
    \<and> ps = (case projectOf w (claudeProjectsPath this) d dir of Some p \<Rightarrow> [p] | None \<Rightarrow> [])
    \<and> rep = \<lparr> reportDate = d, projects = ps, summary = calculateSummary ps \<rparr>"
proof -
  let ?p0 = "this\<lparr> errors := [], warnings := [] \<rparr>"
  have path: "claudeProjectsPath ?p0 = claudeProjectsPath this" by simp
  obtain this1 res where t: "parseProjectOnlyTry w ?p0 n d = (this1, res)"
    by (cases "parseProjectOnlyTry w ?p0 n d") auto
  with assms obtain r where res: "res = Inr r" and r: "data r = Some rep"
    by (cases res) (auto simp: parseProjectOnly_def failed_def)
  from t res obtain dirs where dirs: "getProjectDirectories w ?p0 = Inr dirs"
    by (auto simp: parseProjectOnlyTry_def split: sum.splits if_splits)
  with t res obtain dir where dir: "find (\<lambda>x. extractProjectName x = n) dirs = Some dir"
    by (auto simp: parseProjectOnlyTry_def split: sum.splits option.splits if_splits)
  obtain this2 pr where pp: "parseProjectForDate w ?p0 dir d = (this2, pr)"
    by (cases "parseProjectForDate w ?p0 dir d") auto
  have sn: "pr = snd (parseProjectForDate w \<lparr> claudeProjectsPath = claudeProjectsPath this, errors = [], warnings = [] \<rparr> dir d)"
    using parseProjectForDate_snd_root [OF path, of w dir d] pp by simp
  have po: "\<And>x. pr = Inr (Some x) \<Longrightarrow> projectOf w (claudeProjectsPath this) d dir = Some x"
    using sn
    by (auto simp: projectOf_def parseProjectForDate_snd projectRecord_def sort_key_eq_Nil
        split: sum.splits if_splits)
  have pn: "pr = Inr None \<Longrightarrow> projectOf w (claudeProjectsPath this) d dir = None"
    using sn by (auto simp: projectOf_def)
  from t res r dirs dir pp have
    "rep = \<lparr> reportDate = d,
             projects = (case projectOf w (claudeProjectsPath this) d dir of Some p \<Rightarrow> [p] | None \<Rightarrow> []),
             summary = calculateSummary (case projectOf w (claudeProjectsPath this) d dir of Some p \<Rightarrow> [p] | None \<Rightarrow> []) \<rparr>"
    by (auto simp: parseProjectOnlyTry_def Let_def po pn split: sum.splits option.splits if_splits)
  with dirs dir show ?thesis by (auto simp: getProjectDirectories_reset)
qed

lemma sum_list_insort_key:
  fixes f :: "'a \<Rightarrow> 'b::comm_monoid_add"
  shows "sum_list (map f (insort_key g x xs)) = f x + sum_list (map f xs)"
  by (induction xs) (auto simp: add.left_commute)

lemma sum_list_sort_key:
  fixes f :: "'a \<Rightarrow> 'b::comm_monoid_add"
  shows "sum_list (map f (sort_key g xs)) = sum_list (map f xs)"
  by (induction xs) (auto simp: sum_list_insort_key)

lemma projectRecord_totals:
  "totalDuration (projectRecord dir d scanned) = sum_list (map duration (sessions (projectRecord dir d scanned)))"
  "totalMessages (projectRecord dir d scanned) = sum_list (map messageCount (sessions (projectRecord dir d scanned)))"
  by (simp_all add: projectRecord_def sum_list_sort_key)

lemma projectOf_None:
  assumes "case getJsonlFiles w (pathJoin w rootDir dir) of
             Inl e \<Rightarrow> True
           | Inr files \<Rightarrow> scannedSessions w d (extractProjectPath dir) files = []"
  shows "projectOf w rootDir d dir = None"
  using assms by (auto simp: projectOf_def parseProjectForDate_snd split: sum.splits)

lemma report_projects:
  assumes "r = parseForDate w this d \<or> r = parseProjectOnly w this n d"
    and "data r = Some rep"
  shows "\<exists>dirs ps. getProjectDirectories w this = Inr dirs
      \<and> summary rep = calculateSummary ps
      \<and> projects rep = sort_key (\<lambda>p. - totalDuration p) ps
      \<and> (\<forall>p\<in>set ps. \<exists>dir\<in>set dirs. projectOf w (claudeProjectsPath this) d dir = Some p)"
  using assms(1)
proof
  assume "r = parseForDate w this d"
  with assms(2) parseForDate_data [of w this d rep] obtain dirs where
    "getProjectDirectories w this = Inr dirs"
    "rep = \<lparr> reportDate = d,
              projects = sort_key (\<lambda>p. - totalDuration p)
                           (scannedProjects w (claudeProjectsPath this) d dirs),
              summary = calculateSummary (scannedProjects w (claudeProjectsPath this) d dirs) \<rparr>"
    by auto
  then show ?thesis using scannedProjects_set by fastforce
next
  assume "r = parseProjectOnly w this n d"
  with assms(2) parseProjectOnly_data [of w this n d rep] obtain dirs dir ps where
    d: "getProjectDirectories w this = Inr dirs"
      "find (\<lambda>x. extractProjectName x = n) dirs = Some dir"
      "ps = (case projectOf w (claudeProjectsPath this) d dir of Some p \<Rightarrow> [p] | None \<Rightarrow> [])"
      "rep = \<lparr> reportDate = d, projects = ps, summary = calculateSummary ps \<rparr>"
    by auto
  from d(2) have mem: "dir \<in> set dirs" by (auto simp: find_Some_iff)
  have srt: "sort_key (\<lambda>p. - totalDuration p) ps = ps"
    using d(3) by (auto split: option.splits)
  have al: "\<forall>p\<in>set ps. \<exists>dir\<in>set dirs. projectOf w (claudeProjectsPath this) d dir = Some p"
    using d(3) mem by (auto split: option.splits)
  have 1: "summary rep = calculateSummary ps" using d(4) by simp
  have 2: "projects rep = sort_key (\<lambda>p. - totalDuration p) ps" using d(4) srt by simp
  from d(1) 1 2 al show ?thesis by blast
qed

text \<open>
  C7. In every report produced by a successful \<open>parseForDate\<close> or \<open>parseProjectOnly\<close>,
  \<open>projectCount\<close> is the number of projects, \<open>sessionCount\<close> the sum of the numbers of
  sessions of the projects, and the total duration of the summary the sum of the total
  durations of the projects, each of which is the sum of the durations of its sessions; the
  message counts add up in the same way.
\<close>

theorem summary_consistent:
  assumes "r = parseForDate w this d \<or> r = parseProjectOnly w this n d"
    and "data r = Some rep"
  shows "projectCount (summary rep) = length (projects rep)
    \<and> sessionCount (summary rep) = sum_list (map (\<lambda>p. length (sessions p)) (projects rep))
    \<and> summaryTotalDuration (summary rep) = sum_list (map totalDuration (projects rep))
    \<and> summaryTotalMessages (summary rep) = sum_list (map totalMessages (projects rep))
    \<and> (\<forall>p\<in>set (projects rep).
          totalDuration p = sum_list (map duration (sessions p))
          \<and> totalMessages p = sum_list (map messageCount (sessions p)))"
proof -
  from report_projects [OF assms] obtain dirs ps where
    s: "summary rep = calculateSummary ps"
    and p: "projects rep = sort_key (\<lambda>p. - totalDuration p) ps"
    and o: "\<forall>p\<in>set ps. \<exists>dir\<in>set dirs. projectOf w (claudeProjectsPath this) d dir = Some p"
    by blast
  have totals: "\<forall>p\<in>set (projects rep).
          totalDuration p = sum_list (map duration (sessions p))
          \<and> totalMessages p = sum_list (map messageCount (sessions p))"
  proof
    fix q assume "q \<in> set (projects rep)"
    then have "q \<in> set ps" using p by simp
    with o obtain dir where "projectOf w (claudeProjectsPath this) d dir = Some q" by blast
    from projectOf_Some [OF this] obtain scanned where "q = projectRecord dir d scanned" by blast
    then show "totalDuration q = sum_list (map duration (sessions q))
          \<and> totalMessages q = sum_list (map messageCount (sessions q))"
      using projectRecord_totals by simp
  qed
  have "projectCount (summary rep) = length (projects rep)"
    using s p by (simp add: calculateSummary_def)
  moreover have "sessionCount (summary rep) = sum_list (map (\<lambda>p. length (sessions p)) (projects rep))"
    using s p by (simp add: calculateSummary_def foldl_plus_sum_list sum_list_sort_key)
  moreover have "summaryTotalDuration (summary rep) = sum_list (map totalDuration (projects rep))"
    using s p by (simp add: calculateSummary_def foldl_plus_sum_list sum_list_sort_key)
  moreover have "summaryTotalMessages (summary rep) = sum_list (map totalMessages (projects rep))"
    using s p by (simp add: calculateSummary_def foldl_plus_sum_list sum_list_sort_key)
  ultimately show ?thesis using totals by blast
qed

text \<open>
  C9. Every project record in the output of \<open>parseForDate\<close> or \<open>parseProjectOnly\<close> has at
  least one session, and a project directory whose files cannot be listed or yield no session
  for the target date contributes no record at all.
\<close>

theorem projects_have_sessions:
  assumes "r = parseForDate w this d \<or> r = parseProjectOnly w this n d"
    and "data r = Some rep"
  shows "(\<forall>p\<in>set (projects rep). sessions p \<noteq> [])
    \<and> (\<exists>dirs. getProjectDirectories w this = Inr dirs
         \<and> (\<forall>p\<in>set (projects rep). \<exists>dir\<in>set dirs.
               projectOf w (claudeProjectsPath this) d dir = Some p)
         \<and> (\<forall>dir\<in>set dirs.
               (case getJsonlFiles w (pathJoin w (claudeProjectsPath this) dir) of
                  Inl e \<Rightarrow> True
                | Inr files \<Rightarrow> scannedSessions w d (extractProjectPath dir) files = [])
               \<longrightarrow> projectOf w (claudeProjectsPath this) d dir = None))"
proof -
  from report_projects [OF assms] obtain dirs ps where
    g: "getProjectDirectories w this = Inr dirs"
    and p: "projects rep = sort_key (\<lambda>p. - totalDuration p) ps"
    and o: "\<forall>p\<in>set ps. \<exists>dir\<in>set dirs. projectOf w (claudeProjectsPath this) d dir = Some p"
    by blast
  have src: "\<forall>p\<in>set (projects rep). \<exists>dir\<in>set dirs.
               projectOf w (claudeProjectsPath this) d dir = Some p"
    using p o by simp
  have ne: "\<forall>p\<in>set (projects rep). sessions p \<noteq> []"
  proof
    fix q assume "q \<in> set (projects rep)"
    with src obtain dir where "projectOf w (claudeProjectsPath this) d dir = Some q" by blast
    then show "sessions q \<noteq> []"
      by (auto simp: projectOf_def split: sum.splits option.splits if_splits)
  qed
  from ne g src projectOf_None show ?thesis by blast
qed

text \<open>
  C8. The order of every produced report is determined: the projects are in descending order
  of \<open>totalDuration\<close> and the sessions of each project in ascending order of \<open>startTime\<close>
  (every start time is a valid date). Both sorts are stable: \<open>parseForDate\<close> leaves projects
  of equal duration in the order in which their directories were listed, and sessions with
  equal start time stay in the order in which their files were listed. \<open>parseProjectOnly\<close>
  reports one project at most.
\<close>

theorem output_order:
  assumes "r = parseForDate w this d \<or> r = parseProjectOnly w this n d"
    and "data r = Some rep"
  shows "sorted_wrt (\<lambda>a b. totalDuration a \<ge> totalDuration b) (projects rep)
    \<and> (\<forall>p\<in>set (projects rep).
          sorted_wrt (\<lambda>a b. timeKey (startTime a) \<le> timeKey (startTime b)) (sessions p)
          \<and> (\<forall>s\<in>set (sessions p). \<exists>t. startTime s = Date t))
    \<and> (\<exists>dirs. getProjectDirectories w this = Inr dirs
         \<and> (\<forall>p\<in>set (projects rep). \<exists>dir\<in>set dirs. \<exists>files.
               getJsonlFiles w (pathJoin w (claudeProjectsPath this) dir) = Inr files
               \<and> (\<forall>t. filter (\<lambda>s. timeKey (startTime s) = t) (sessions p)
                       = filter (\<lambda>s. timeKey (startTime s) = t)
                           (scannedSessions w d (extractProjectPath dir) files)))
         \<and> (r = parseForDate w this d \<longrightarrow>
               (\<forall>k. filter (\<lambda>p. totalDuration p = k) (projects rep)
                     = filter (\<lambda>p. totalDuration p = k)
                         (scannedProjects w (claudeProjectsPath this) d dirs)))
         \<and> (r = parseProjectOnly w this n d \<longrightarrow> length (projects rep) \<le> 1))"
proof -
  from report_projects [OF assms] obtain dirs ps where
    g: "getProjectDirectories w this = Inr dirs"
    and p: "projects rep = sort_key (\<lambda>p. - totalDuration p) ps"
    and o: "\<forall>p\<in>set ps. \<exists>dir\<in>set dirs. projectOf w (claudeProjectsPath this) d dir = Some p"
    by blast
  have "sorted (map (\<lambda>p. - totalDuration p) (projects rep))"
    using p by (simp add: sorted_sort_key)
  then have desc: "sorted_wrt (\<lambda>a b. totalDuration a \<ge> totalDuration b) (projects rep)"
    by (simp add: sorted_wrt_map)
  have each: "\<forall>q\<in>set (projects rep). \<exists>dir\<in>set dirs. \<exists>files.
        getJsonlFiles w (pathJoin w (claudeProjectsPath this) dir) = Inr files
        \<and> q = projectRecord dir d (scannedSessions w d (extractProjectPath dir) files)"
  proof
    fix q assume "q \<in> set (projects rep)"
    then have "q \<in> set ps" using p by simp
    with o obtain dir where dir: "dir \<in> set dirs" "projectOf w (claudeProjectsPath this) d dir = Some q"
      by blast
    from projectOf_Some [OF dir(2)] dir(1)
    show "\<exists>dir\<in>set dirs. \<exists>files.
        getJsonlFiles w (pathJoin w (claudeProjectsPath this) dir) = Inr files
        \<and> q = projectRecord dir d (scannedSessions w d (extractProjectPath dir) files)"
      by blast
  qed
  have asc: "\<forall>q\<in>set (projects rep).
          sorted_wrt (\<lambda>a b. timeKey (startTime a) \<le> timeKey (startTime b)) (sessions q)
          \<and> (\<forall>s\<in>set (sessions q). \<exists>t. startTime s = Date t)"
  proof
    fix q assume "q \<in> set (projects rep)"
    with each obtain dir files where
      q: "q = projectRecord dir d (scannedSessions w d (extractProjectPath dir) files)"
      by blast
    have "sorted (map (\<lambda>s. timeKey (startTime s)) (sessions q))"
      by (simp add: q projectRecord_def sorted_sort_key)
    then have 1: "sorted_wrt (\<lambda>a b. timeKey (startTime a) \<le> timeKey (startTime b)) (sessions q)"
      by (simp add: sorted_wrt_map)
    have 2: "\<forall>s\<in>set (sessions q). \<exists>t. startTime s = Date t"
    proof
      fix s assume "s \<in> set (sessions q)"
      then have "s \<in> set (scannedSessions w d (extractProjectPath dir) files)"
        by (simp add: q projectRecord_def)
      then show "\<exists>t. startTime s = Date t"
        using scannedSessions_set parseSessionFile_Some_start by blast
    qed
    from 1 2 show "sorted_wrt (\<lambda>a b. timeKey (startTime a) \<le> timeKey (startTime b)) (sessions q)
          \<and> (\<forall>s\<in>set (sessions q). \<exists>t. startTime s = Date t)" by blast
  qed
  have stable_s: "\<forall>q\<in>set (projects rep). \<exists>dir\<in>set dirs. \<exists>files.
               getJsonlFiles w (pathJoin w (claudeProjectsPath this) dir) = Inr files
               \<and> (\<forall>t. filter (\<lambda>s. timeKey (startTime s) = t) (sessions q)
                       = filter (\<lambda>s. timeKey (startTime s) = t)
                           (scannedSessions w d (extractProjectPath dir) files))"
  proof
    fix q assume "q \<in> set (projects rep)"
    with each obtain dir files where
      dir: "dir \<in> set dirs" "getJsonlFiles w (pathJoin w (claudeProjectsPath this) dir) = Inr files"
      and q: "q = projectRecord dir d (scannedSessions w d (extractProjectPath dir) files)"
      by blast
    have "\<forall>t. filter (\<lambda>s. timeKey (startTime s) = t) (sessions q)
                       = filter (\<lambda>s. timeKey (startTime s) = t)
                           (scannedSessions w d (extractProjectPath dir) files)"
      by (simp add: q projectRecord_def sort_key_stable)
    with dir show "\<exists>dir\<in>set dirs. \<exists>files.
               getJsonlFiles w (pathJoin w (claudeProjectsPath this) dir) = Inr files
               \<and> (\<forall>t. filter (\<lambda>s. timeKey (startTime s) = t) (sessions q)
                       = filter (\<lambda>s. timeKey (startTime s) = t)
                           (scannedSessions w d (extractProjectPath dir) files))"
      by blast
  qed
  have stable_p: "r = parseForDate w this d \<longrightarrow>
               (\<forall>k. filter (\<lambda>p. totalDuration p = k) (projects rep)
                     = filter (\<lambda>p. totalDuration p = k)
                         (scannedProjects w (claudeProjectsPath this) d dirs))"
  proof
    assume "r = parseForDate w this d"
    with assms(2) parseForDate_data [of w this d rep] g
    have pr: "projects rep = sort_key (\<lambda>p. - totalDuration p)
                           (scannedProjects w (claudeProjectsPath this) d dirs)"
      by auto
    show "\<forall>k. filter (\<lambda>p. totalDuration p = k) (projects rep)
                     = filter (\<lambda>p. totalDuration p = k)
                         (scannedProjects w (claudeProjectsPath this) d dirs)"
    proof
      fix k
      have "filter (\<lambda>p. - totalDuration p = - k) (projects rep)
          = filter (\<lambda>p. - totalDuration p = - k) (scannedProjects w (claudeProjectsPath this) d dirs)"
        unfolding pr by (rule sort_key_stable)
      then show "filter (\<lambda>p. totalDuration p = k) (projects rep)
                     = filter (\<lambda>p. totalDuration p = k)
                         (scannedProjects w (claudeProjectsPath this) d dirs)"
        by simp
    qed
  qed
  have one: "r = parseProjectOnly w this n d \<longrightarrow> length (projects rep) \<le> 1"
  proof
    assume "r = parseProjectOnly w this n d"
    with assms(2) parseProjectOnly_data [of w this n d rep]
    show "length (projects rep) \<le> 1" by (auto split: option.splits)
  qed
  from desc asc g stable_s stable_p one show ?thesis by blast
qed

section \<open>Successful runs\<close>

lemma parseForDate_success:
  assumes "isValidDateString w d = Inr True"
    and "directoryExists w (claudeProjectsPath this)"
    and "getProjectDirectories w this = Inr dirs"
  shows "success (parseForDate w this d)"
    and "data (parseForDate w this d) =
      Some \<lparr> reportDate = d,
             projects = sort_key (\<lambda>p. - totalDuration p)
                          (scannedProjects w (claudeProjectsPath this) d dirs),
             summary = calculateSummary (scannedProjects w (claudeProjectsPath this) d dirs) \<rparr>"
proof -
  let ?p0 = "this\<lparr> errors := [], warnings := [] \<rparr>"
  have path: "claudeProjectsPath ?p0 = claudeProjectsPath this" by simp
  have g: "getProjectDirectories w ?p0 = Inr dirs"
    using assms(3) by (simp add: getProjectDirectories_reset)
  have f: "fst (foldl (projectStep w d) ([], ?p0) dirs)
            = scannedProjects w (claudeProjectsPath this) d dirs"
    using foldl_projectStep_fst [OF path, of w d "[]" dirs] by simp
  show "success (parseForDate w this d)"
    using assms(1,2) g by (simp add: parseForDate_def parseForDateTry_def Let_def)
  show "data (parseForDate w this d) =
      Some \<lparr> reportDate = d,
             projects = sort_key (\<lambda>p. - totalDuration p)
                          (scannedProjects w (claudeProjectsPath this) d dirs),
             summary = calculateSummary (scannedProjects w (claudeProjectsPath this) d dirs) \<rparr>"
    using assms(1,2) g
    by (simp add: parseForDate_def parseForDateTry_def Let_def f scannedProjects_Nil calculateSummary_Nil)
qed

lemma demo_names:
  "extractProjectName ''-Users-dev-app'' = ''app''"
  "extractProjectName ''-Users-dev-web'' = ''web''"
  "extractProjectPath ''-Users-dev-app'' = ''Users/dev/app''"
  "extractProjectPath ''-Users-dev-web'' = ''Users/dev/web''"
  by (simp_all add: extractProjectName_def extractProjectPath_def stripDashes_def orElse_def Let_def)

lemma demo_dirs:
  "getProjectDirectories demoWorld demoParser = Inr [''-Users-dev-app'', ''-Users-dev-web'']"
  by (simp add: getProjectDirectories_def demoParser_def demoDirs_def directoryExists_def
      demoStat_def startsWith_def)

lemma demo_files:
  "getJsonlFiles demoWorld ''/projects/-Users-dev-app'' =
     Inr [''/projects/-Users-dev-app/s1.jsonl'', ''/projects/-Users-dev-app/s2.jsonl'',
          ''/projects/-Users-dev-app/s3.jsonl'', ''/projects/-Users-dev-app/s4.jsonl'']"
  "getJsonlFiles demoWorld ''/projects/-Users-dev-web'' = Inr [''/projects/-Users-dev-web/t1.jsonl'']"
  by (simp_all add: getJsonlFiles_def demoDirs_def endsWith_def)

lemma demo_session_s4:
  "parseSessionFile demoWorld ''/projects/-Users-dev-app/s4.jsonl'' ''2025-07-03'' ''Users/dev/app'' = Inr None"
  by (simp add: parseSessionFile_eq [OF demo_read(2), of "''2025-07-03''" "[entryAssistant, entryLate]"]
      demo_target demo_qualifies)

lemma demo_session_t1:
  "parseSessionFile demoWorld ''/projects/-Users-dev-web/t1.jsonl'' ''2025-07-03'' ''Users/dev/web'' =
     Inr (Some demoSessionT1)"
  by (simp add: parseSessionFile_eq [OF demo_read(3), of "''2025-07-03''" "[entryTool, entryLate]"]
      demo_target demo_qualifies demo_content sessionOf_def demo_timeOf demo_basename
      differenceInMinutes_def demoSessionT1_def)

lemma demo_session_bad:
  "parseSessionFile demoWorld ''/projects/-Users-dev-app/s2.jsonl'' d p =
     Inl (lineFailure ''/projects/-Users-dev-app/s2.jsonl'' 4 (Exn ''SyntaxError'' ''Unexpected end of JSON input''))"
  "parseSessionFile demoWorld ''/projects/-Users-dev-app/s3.jsonl'' d p =
     Inl (lineFailure ''/projects/-Users-dev-app/s3.jsonl'' 1 (Exn ''SyntaxError'' ''Unexpected end of JSON input''))"
  by (simp_all add: parseSessionFile_def demo_read_bad lineFailure_def showNat.simps)

lemma demo_scanned_sessions:
  "scannedSessions demoWorld ''2025-07-03'' ''Users/dev/app''
     [''/projects/-Users-dev-app/s1.jsonl'', ''/projects/-Users-dev-app/s2.jsonl'',
      ''/projects/-Users-dev-app/s3.jsonl'', ''/projects/-Users-dev-app/s4.jsonl''] = [demoSessionS1]"
  "scannedSessions demoWorld ''2025-07-03'' ''Users/dev/web'' [''/projects/-Users-dev-web/t1.jsonl'']
     = [demoSessionT1]"
  by (simp_all add: scannedSessions_def map_filter_simps demo_session_s1 demo_session_bad
      demo_session_s4 demo_session_t1 demoSessionS1_def)

lemma demo_projectOf:
  "projectOf demoWorld ''/projects'' ''2025-07-03'' ''-Users-dev-app'' = Some demoApp"
  "projectOf demoWorld ''/projects'' ''2025-07-03'' ''-Users-dev-web'' = Some demoWeb"
  by (simp_all add: projectOf_def parseProjectForDate_snd demo_files demo_names
      demo_scanned_sessions projectRecord_def demoApp_def demoWeb_def demoSessionS1_def demoSessionT1_def)

lemma demo_scanned_projects:
  "scannedProjects demoWorld ''/projects'' ''2025-07-03'' [''-Users-dev-app'', ''-Users-dev-web'']
     = [demoApp, demoWeb]"
  by (simp add: scannedProjects_def map_filter_simps demo_projectOf)

lemma demo_valid_date:
  "isValidDateString demoWorld ''2025-07-03'' = Inr True"
  "isValidDateString demoWorld ''not-a-date'' = Inr False"
  by (simp_all add: isValidDateString_def demoParseISO_def)

lemma demo_root: "directoryExists demoWorld (claudeProjectsPath demoParser)"
  by (simp add: directoryExists_def demoParser_def demoStat_def)

lemma demo_report:
  "data (parseForDate demoWorld demoParser ''2025-07-03'') = Some demoReport"
proof -
  have p: "claudeProjectsPath demoParser = ''/projects''" by (simp add: demoParser_def)
  show ?thesis
    using parseForDate_success(2) [OF demo_valid_date(1) demo_root demo_dirs]
    by (simp add: p demo_scanned_projects demoReport_def calculateSummary_def demoApp_def demoWeb_def)
qed

text \<open>The report of the sample history for 2025-07-03.\<close>

theorem summary_consistent_witness:
  "projectCount (summary demoReport) = length (projects demoReport)
   \<and> sessionCount (summary demoReport) = sum_list (map (\<lambda>p. length (sessions p)) (projects demoReport))
   \<and> summaryTotalDuration (summary demoReport) = sum_list (map totalDuration (projects demoReport))
   \<and> summaryTotalDuration (summary demoReport) = 60
   \<and> totalDuration demoWeb = sum_list (map duration (sessions demoWeb))"
proof -
  have r: "parseForDate demoWorld demoParser ''2025-07-03'' = parseForDate demoWorld demoParser ''2025-07-03''
         \<or> parseForDate demoWorld demoParser ''2025-07-03'' = parseProjectOnly demoWorld demoParser ''app'' ''2025-07-03''"
    by simp
  show ?thesis
    using summary_consistent [OF r demo_report] by (simp add: demoReport_def)
qed

text \<open>Both projects of the sample report have a session.\<close>

theorem projects_have_sessions_witness:
  "projects demoReport = [demoWeb, demoApp] \<and> sessions demoWeb \<noteq> [] \<and> sessions demoApp \<noteq> []"
proof -
  have r: "parseForDate demoWorld demoParser ''2025-07-03'' = parseForDate demoWorld demoParser ''2025-07-03''
         \<or> parseForDate demoWorld demoParser ''2025-07-03'' = parseProjectOnly demoWorld demoParser ''app'' ''2025-07-03''"
    by simp
  show ?thesis
    using projects_have_sessions [OF r demo_report] by (simp add: demoReport_def)
qed

text \<open>
  The directories are listed as \<open>app\<close>, \<open>web\<close>; the report has \<open>web\<close> (45 minutes) before
  \<open>app\<close> (15 minutes).
\<close>

theorem output_order_witness:
  "scannedProjects demoWorld ''/projects'' ''2025-07-03'' [''-Users-dev-app'', ''-Users-dev-web'']
     = [demoApp, demoWeb]
   \<and> projects demoReport = [demoWeb, demoApp]
   \<and> sorted_wrt (\<lambda>a b. totalDuration a \<ge> totalDuration b) (projects demoReport)
   \<and> sorted_wrt (\<lambda>a b. timeKey (startTime a) \<le> timeKey (startTime b)) (sessions demoWeb)"
proof -
  have r: "parseForDate demoWorld demoParser ''2025-07-03'' = parseForDate demoWorld demoParser ''2025-07-03''
         \<or> parseForDate demoWorld demoParser ''2025-07-03'' = parseProjectOnly demoWorld demoParser ''app'' ''2025-07-03''"
    by simp
  show ?thesis
    using output_order [OF r demo_report] by (simp add: demoReport_def demo_scanned_projects)
qed

section \<open>Configuration failures\<close>

lemma failed_fresh:
  "msg \<noteq> [] \<Longrightarrow> errors this = [] \<Longrightarrow> warnings this = [] \<Longrightarrow> failed this (Error msg) = parserFailure msg"
  by (simp add: failed_def parserFailure_def Error_def)

lemma parseForDate_invalid_date:
  assumes "isValidDateString w d = Inr False"
  shows "parseForDate w this d = parserFailure (''Invalid date format: '' @ d)"
  using assms by (simp add: parseForDate_def parseForDateTry_def failed_fresh)

lemma parseForDate_missing_root:
  assumes "isValidDateString w d = Inr True"
    and "\<not> directoryExists w (claudeProjectsPath this)"
  shows "parseForDate w this d =
           parserFailure (''Claude projects directory not found: '' @ claudeProjectsPath this)"
  using assms by (simp add: parseForDate_def parseForDateTry_def failed_fresh)

lemma parseProjectOnly_missing_root:
  assumes "readdirSync w (claudeProjectsPath this) = Inl e"
  shows "parseProjectOnly w this n d =
           parserFailure (''Failed to read projects directory: '' @ errToString e)"
  using assms
  by (simp add: parseProjectOnly_def parseProjectOnlyTry_def getProjectDirectories_def failed_fresh)

lemma parseProjectOnly_not_found:
  assumes "getProjectDirectories w this = Inr dirs"
    and "\<forall>dir\<in>set dirs. extractProjectName dir \<noteq> n"
  shows "parseProjectOnly w this n d = parserFailure (''Project not found: '' @ n)"
proof -
  have "find (\<lambda>dir. extractProjectName dir = n) dirs = None"
    using assms(2) by (simp add: find_None_iff)
  then show ?thesis
    using assms(1)
    by (simp add: parseProjectOnly_def parseProjectOnlyTry_def getProjectDirectories_reset failed_fresh)
qed

lemma demo_session_bad_date:
  "parseSessionFile demoWorld ''/projects/-Users-dev-app/s1.jsonl'' ''not-a-date'' p = Inr None"
  "parseSessionFile demoWorld ''/projects/-Users-dev-app/s4.jsonl'' ''not-a-date'' p = Inr None"
  by (simp_all add: parseSessionFile_eq [OF demo_read(1), of "''not-a-date''" "[]"]
      parseSessionFile_eq [OF demo_read(2), of "''not-a-date''" "[]"] demo_target_bad_date)

text \<open>
  C2. For \<open>parseForDate\<close> an invalid date and a missing root directory give a failed result
  with a message and no data (\<open>parseForDate_invalid_date\<close>, \<open>parseForDate_missing_root\<close>),
  and so do an unreadable root directory and an unknown project name for \<open>parseProjectOnly\<close>
  (\<open>parseProjectOnly_missing_root\<close>, \<open>parseProjectOnly_not_found\<close>). But
  \<open>parseProjectOnly\<close> does not check the date: on the sample history, with the date
  \<open>not-a-date\<close> that \<open>parseForDate\<close> rejects, it reads the files of the project, records
  their failures and returns a successful result with an empty report.
\<close>

theorem parseProjectOnly_invalid_date_succeeds:
  "isValidDateString demoWorld ''not-a-date'' = Inr False
   \<and> parseForDate demoWorld demoParser ''not-a-date'' = parserFailure ''Invalid date format: not-a-date''
   \<and> parseProjectOnly demoWorld demoParser ''app'' ''not-a-date'' =
       \<lparr> success = True,
         data = Some \<lparr> reportDate = ''not-a-date'', projects = [],
                       summary = \<lparr> summaryTotalDuration = 0, summaryTotalMessages = 0,
                                   projectCount = 0, sessionCount = 0 \<rparr> \<rparr>,
         resultErrors =
           [fileFailure ''/projects/-Users-dev-app/s2.jsonl''
              (lineFailure ''/projects/-Users-dev-app/s2.jsonl'' 4
                 (Exn ''SyntaxError'' ''Unexpected end of JSON input'')),
            fileFailure ''/projects/-Users-dev-app/s3.jsonl''
              (lineFailure ''/projects/-Users-dev-app/s3.jsonl'' 1
                 (Exn ''SyntaxError'' ''Unexpected end of JSON input''))],
         resultWarnings = [] \<rparr>"
proof (intro conjI)
  show "isValidDateString demoWorld ''not-a-date'' = Inr False"
    by (rule demo_valid_date(2))
  show "parseForDate demoWorld demoParser ''not-a-date'' = parserFailure ''Invalid date format: not-a-date''"
    using parseForDate_invalid_date [OF demo_valid_date(2), of demoParser] by simp
  have pp: "parseProjectForDate demoWorld (demoParser\<lparr> errors := [], warnings := [] \<rparr>)
              ''-Users-dev-app'' ''not-a-date''
      = (demoParser\<lparr> errors :=
           [fileFailure ''/projects/-Users-dev-app/s2.jsonl''
              (lineFailure ''/projects/-Users-dev-app/s2.jsonl'' 4
                 (Exn ''SyntaxError'' ''Unexpected end of JSON input'')),
            fileFailure ''/projects/-Users-dev-app/s3.jsonl''
              (lineFailure ''/projects/-Users-dev-app/s3.jsonl'' 1
                 (Exn ''SyntaxError'' ''Unexpected end of JSON input''))], warnings := [] \<rparr>, Inr None)"
    by (simp add: parseProjectForDate_def Let_def demoParser_def demo_files demo_names
        sessionStep_def demo_session_bad demo_session_bad_date fileFailure_def)
  show "parseProjectOnly demoWorld demoParser ''app'' ''not-a-date'' =
       \<lparr> success = True,
         data = Some \<lparr> reportDate = ''not-a-date'', projects = [],
                       summary = \<lparr> summaryTotalDuration = 0, summaryTotalMessages = 0,
                                   projectCount = 0, sessionCount = 0 \<rparr> \<rparr>,
         resultErrors =
           [fileFailure ''/projects/-Users-dev-app/s2.jsonl''
              (lineFailure ''/projects/-Users-dev-app/s2.jsonl'' 4
                 (Exn ''SyntaxError'' ''Unexpected end of JSON input'')),
            fileFailure ''/projects/-Users-dev-app/s3.jsonl''
              (lineFailure ''/projects/-Users-dev-app/s3.jsonl'' 1
                 (Exn ''SyntaxError'' ''Unexpected end of JSON input''))],
         resultWarnings = [] \<rparr>"
    by (simp add: parseProjectOnly_def parseProjectOnlyTry_def getProjectDirectories_reset
        demo_dirs demo_names pp calculateSummary_Nil)
qed

end
